theory Spec2Isabelle
  imports Main
begin

section \<open>JavaScript values\<close>

text \<open>
  The server (src/index.ts) shuffles JSON: tool arguments, HTTP request bodies and HTTP
  response bodies. A value is one of the JSON shapes, or \<open>undefined\<close> (what reading a missing
  property gives). Numbers are modelled as integers: every number the handlers look at is an
  id or a grid coordinate. An object is the list of its properties in enumeration order, its
  keys distinct.
\<close>

datatype json =
    JUndefined
  | JNull
  | JBool bool
  | JNum int
  | JStr string
  | JArr "json list"
  | JObj "(string \<times> json) list"

text \<open>JavaScript truthiness, the test behind \<open>!x\<close>, \<open>x || y\<close>, \<open>x ? a : b\<close> and \<open>if (x)\<close>.\<close>

fun truthy :: "json \<Rightarrow> bool" where
  "truthy JUndefined = False"
| "truthy JNull = False"
| "truthy (JBool b) = b"
| "truthy (JNum n) = (n \<noteq> 0)"
| "truthy (JStr s) = (s \<noteq> [])"
| "truthy (JArr xs) = True"
| "truthy (JObj kvs) = True"

text \<open>\<open>a || b\<close>\<close>

definition js_or :: "json \<Rightarrow> json \<Rightarrow> json" where
  "js_or a b = (if truthy a then a else b)"

text \<open>\<open>a === b\<close>: primitives compare by value, objects and arrays by identity (an object
  of the arguments is never the same object as one of a response).\<close>

definition strict_eq :: "json \<Rightarrow> json \<Rightarrow> bool" where
  "strict_eq a b = (case a of JArr xs \<Rightarrow> False | JObj kvs \<Rightarrow> False | _ \<Rightarrow> a = b)"

text \<open>Own properties of an object: read, write (an existing key keeps its place, a new one
  goes last), remove (rest destructuring \<open>{k, ...rest}\<close>).\<close>

fun obj_get :: "(string \<times> json) list \<Rightarrow> string \<Rightarrow> json" where
  "obj_get [] k = JUndefined"
| "obj_get ((k', v) # kvs) k = (if k' = k then v else obj_get kvs k)"

fun obj_set :: "string \<Rightarrow> json \<Rightarrow> (string \<times> json) list \<Rightarrow> (string \<times> json) list" where
  "obj_set k v [] = [(k, v)]"
| "obj_set k v ((k', v') # kvs) = (if k' = k then (k, v) # kvs else (k', v') # obj_set k v kvs)"

definition obj_del :: "string list \<Rightarrow> (string \<times> json) list \<Rightarrow> (string \<times> json) list" where
  "obj_del ks kvs = filter (\<lambda>kv. fst kv \<notin> set ks) kvs"

text \<open>Decimal digits of a number, as \<open>String(n)\<close> prints an integer.\<close>

function dec_nat :: "nat \<Rightarrow> string" where
  "dec_nat n =
     (if n < 10 then [''0123456789'' ! n]
      else dec_nat (n div 10) @ [''0123456789'' ! (n mod 10)])"
  by pat_completeness auto
termination
  by (relation "measure id") auto

declare dec_nat.simps [simp del]

definition dec_int :: "int \<Rightarrow> string" where
  "dec_int i = (if i < 0 then CHR ''-'' # dec_nat (nat (- i)) else dec_nat (nat i))"

text \<open>String conversion, as a template literal \<open>`${v}`\<close> and \<open>String(v)\<close> do it: an array
  joins its elements with commas (null and undefined elements print as nothing), an object
  prints as \<open>[object Object]\<close>.\<close>

fun nullish :: "json \<Rightarrow> bool" where
  "nullish JUndefined = True"
| "nullish JNull = True"
| "nullish _ = False"

fun to_string :: "json \<Rightarrow> string"
  and arr_join :: "json list \<Rightarrow> string" where
  "to_string JUndefined = ''undefined''"
| "to_string JNull = ''null''"
| "to_string (JBool b) = (if b then ''true'' else ''false'')"
| "to_string (JNum n) = dec_int n"
| "to_string (JStr s) = s"
| "to_string (JArr xs) = arr_join xs"
| "to_string (JObj kvs) = ''[object Object]''"
| "arr_join [] = []"
| "arr_join [x] = (if nullish x then [] else to_string x)"
| "arr_join (x # y # ys) =
     (if nullish x then [] else to_string x) @ '','' @ arr_join (y # ys)"

text \<open>\<open>JSON.stringify(v, null, 2)\<close>: a string is quoted and escaped; an array or object
  with members puts each on a line of its own, two spaces deeper; a property whose value is
  undefined is left out, an undefined array element prints as null; at top level undefined
  gives undefined, not a string.\<close>

definition hex_digit :: "nat \<Rightarrow> char" where
  "hex_digit n = ''0123456789abcdef'' ! n"

definition escape_char :: "char \<Rightarrow> string" where
  "escape_char c =
     (if c = CHR 0x22 then [CHR 0x5C, CHR 0x22]
      else if c = CHR 0x5C then [CHR 0x5C, CHR 0x5C]
      else if c = CHR 0x08 then [CHR 0x5C, CHR ''b'']
      else if c = CHR 0x09 then [CHR 0x5C, CHR ''t'']
      else if c = CHR 0x0A then [CHR 0x5C, CHR ''n'']
      else if c = CHR 0x0C then [CHR 0x5C, CHR ''f'']
      else if c = CHR 0x0D then [CHR 0x5C, CHR ''r'']
      else if (of_char c :: nat) < 32
        then [CHR 0x5C, CHR ''u'', CHR ''0'', CHR ''0'',
              hex_digit (of_char c div 16), hex_digit (of_char c mod 16)]
      else [c])"

definition quote :: "string \<Rightarrow> string" where
  "quote s = CHR 0x22 # concat (map escape_char s) @ [CHR 0x22]"

fun join_lines :: "string list \<Rightarrow> string" where
  "join_lines [] = []"
| "join_lines [l] = l"
| "join_lines (l # m # ls) = l @ [CHR '','', CHR 0x0A] @ join_lines (m # ls)"

definition pad :: "nat \<Rightarrow> string" where
  "pad n = replicate n CHR '' ''"

fun ser :: "nat \<Rightarrow> json \<Rightarrow> string"
  and ser_elems :: "nat \<Rightarrow> json list \<Rightarrow> string list"
  and ser_members :: "nat \<Rightarrow> (string \<times> json) list \<Rightarrow> string list" where
  "ser ind JUndefined = ''null''"
| "ser ind JNull = ''null''"
| "ser ind (JBool b) = (if b then ''true'' else ''false'')"
| "ser ind (JNum n) = dec_int n"
| "ser ind (JStr s) = quote s"
| "ser ind (JArr xs) =
     (case ser_elems (ind + 2) xs of
        [] \<Rightarrow> ''[]''
      | ls \<Rightarrow> ''['' @ [CHR 0x0A] @ join_lines ls @ [CHR 0x0A] @ pad ind @ '']'')"
| "ser ind (JObj kvs) =
     (case ser_members (ind + 2) kvs of
        [] \<Rightarrow> ''{}''
      | ls \<Rightarrow> ''{'' @ [CHR 0x0A] @ join_lines ls @ [CHR 0x0A] @ pad ind @ ''}'')"
| "ser_elems ind [] = []"
| "ser_elems ind (x # xs) = (pad ind @ ser ind x) # ser_elems ind xs"
| "ser_members ind [] = []"
| "ser_members ind ((k, v) # kvs) =
     (if v = JUndefined then ser_members ind kvs
      else (pad ind @ quote k @ '': '' @ ser ind v) # ser_members ind kvs)"

definition JSON_stringify :: "json \<Rightarrow> json" where
  "JSON_stringify v = (if v = JUndefined then JUndefined else JStr (ser 0 v))"

text \<open>Object spread \<open>{...v}\<close>: the own enumerable properties of \<open>v\<close>. An array and a
  string spread their indices, other primitives spread nothing.\<close>

fun indexed :: "nat \<Rightarrow> json list \<Rightarrow> (string \<times> json) list" where
  "indexed i [] = []"
| "indexed i (x # xs) = (dec_nat i, x) # indexed (Suc i) xs"

fun spread :: "json \<Rightarrow> (string \<times> json) list" where
  "spread (JObj kvs) = kvs"
| "spread (JArr xs) = indexed 0 xs"
| "spread (JStr s) = indexed 0 (map (\<lambda>c. JStr [c]) s)"
| "spread _ = []"


section \<open>Errors\<close>

text \<open>The source's \<open>ErrorCode\<close> enum and \<open>McpError\<close> class, the errors axios rejects with
  (\<open>response\<close> is the body of the error response when the service answered, \<open>message\<close> the
  error's own text), the \<open>TypeError\<close> the runtime raises on reading a property of null or
  undefined or calling what is not a function, and the plain \<open>Error\<close> of startup.\<close>

datatype ErrorCode = InternalError | InvalidRequest | InvalidParams | MethodNotFound

datatype axios_error = AxiosError (response: "json option") (message: string)

datatype exn =
    McpError ErrorCode string
  | Axios axios_error
  | TypeError
  | Error string

text \<open>\<open>v.k\<close> raises on null and undefined; a primitive or an array has none of the
  properties the handlers read. \<open>v?.k\<close> gives undefined instead of raising.\<close>

fun get_prop :: "json \<Rightarrow> string \<Rightarrow> exn + json" where
  "get_prop JUndefined k = Inl TypeError"
| "get_prop JNull k = Inl TypeError"
| "get_prop (JObj kvs) k = Inr (obj_get kvs k)"
| "get_prop _ k = Inr JUndefined"

fun opt_prop :: "json \<Rightarrow> string \<Rightarrow> json" where
  "opt_prop (JObj kvs) k = obj_get kvs k"
| "opt_prop _ k = JUndefined"

text \<open>\<open>error.response?.data?.message || error.message\<close>, printed into a template.\<close>

definition axios_detail :: "axios_error \<Rightarrow> string" where
  "axios_detail e =
     to_string (js_or (case response e of None \<Rightarrow> JUndefined | Some d \<Rightarrow> opt_prop d ''message'')
                      (JStr (message e)))"


section \<open>Configuration, server state and the external service\<close>

text \<open>The four environment variables; an unset variable is \<open>None\<close>. A variable counts
  when it is set and not empty (the source tests \<open>!METABASE_URL\<close>).\<close>

record config =
  METABASE_URL :: "string option"
  METABASE_USERNAME :: "string option"
  METABASE_PASSWORD :: "string option"
  METABASE_API_KEY :: "string option"

fun env_set :: "string option \<Rightarrow> bool" where
  "env_set None = False"
| "env_set (Some s) = (s \<noteq> [])"

fun env_json :: "string option \<Rightarrow> json" where
  "env_json None = JUndefined"
| "env_json (Some s) = JStr s"

datatype http_method = GET | POST | PUT | DELETE

record http_call =
  meth :: http_method
  url :: string
  body :: json
  hdrs :: "(string \<times> json) list"

text \<open>The mutable fields of \<open>MetabaseServer\<close>: the session token and the axios instance's
  default headers; \<open>trace\<close> logs every HTTP request sent, in order.\<close>

record server_state =
  sessionToken :: json
  headers :: "(string \<times> json) list"
  trace :: "http_call list"

text \<open>The external service is a black box: what it answers to a request may depend on
  every request it has seen before. An answer is a response body, or the error axios
  rejects with (no connection, or a status outside 2xx).\<close>

type_synonym service = "http_call list \<Rightarrow> http_call \<Rightarrow> axios_error + json"

type_synonym 'a act = "server_state \<Rightarrow> (exn + 'a) \<times> server_state"

definition ret :: "'a \<Rightarrow> 'a act" where
  "ret x st = (Inr x, st)"

definition throw :: "exn \<Rightarrow> 'a act" where
  "throw e st = (Inl e, st)"

definition bnd :: "'a act \<Rightarrow> ('a \<Rightarrow> 'b act) \<Rightarrow> 'b act" where
  "bnd m f st = (case m st of (Inl e, st1) \<Rightarrow> (Inl e, st1) | (Inr x, st1) \<Rightarrow> f x st1)"

definition lift :: "exn + 'a \<Rightarrow> 'a act" where
  "lift r st = (r, st)"

text \<open>\<open>await this.axiosInstance.get/post/put/delete(url, body)\<close>: the request goes out
  with the default headers of the moment, and is logged whether it succeeds or not.\<close>

definition sent :: "http_method \<Rightarrow> string \<Rightarrow> json \<Rightarrow> server_state \<Rightarrow> http_call" where
  "sent m u b st = \<lparr>meth = m, url = u, body = b, hdrs = headers st\<rparr>"

definition request :: "service \<Rightarrow> http_method \<Rightarrow> string \<Rightarrow> json \<Rightarrow> json act" where
  "request srv m u b st =
     (case srv (trace st) (sent m u b st) of Inl e \<Rightarrow> Inl (Axios e) | Inr d \<Rightarrow> Inr d,
      st\<lparr>trace := trace st @ [sent m u b st]\<rparr>)"

text \<open>The requests sent between two states.\<close>

definition issued :: "server_state \<Rightarrow> server_state \<Rightarrow> http_call list" where
  "issued st st' = drop (length (trace st)) (trace st')"


section \<open>Startup\<close>

text \<open>Lines 52-59 (the check of the environment) and the constructor, lines 75-129. The
  second component is the list of request methods a handler has been registered for:
  \<open>setupResourceHandlers\<close> and \<open>setupToolHandlers\<close> run last in the constructor.\<close>

definition env_error :: string where
  "env_error = ''Either (METABASE_URL and METABASE_API_KEY) or (METABASE_URL, METABASE_USERNAME, and METABASE_PASSWORD) environment variables are required''"

definition construct :: "config \<Rightarrow> exn + server_state" where
  "construct cfg =
     (if env_set (METABASE_API_KEY cfg) then
        Inr \<lparr>sessionToken = JStr ''api_key_used'',
             headers = [(''Content-Type'', JStr ''application/json''),
                        (''X-API-Key'', env_json (METABASE_API_KEY cfg))],
             trace = []\<rparr>
      else if env_set (METABASE_USERNAME cfg) \<and> env_set (METABASE_PASSWORD cfg) then
        Inr \<lparr>sessionToken = JNull,
             headers = [(''Content-Type'', JStr ''application/json'')],
             trace = []\<rparr>
      else Inl (Error ''Metabase authentication credentials not provided or incomplete.''))"

definition startup :: "config \<Rightarrow> (exn + server_state) \<times> string list" where
  "startup cfg =
     (if \<not> env_set (METABASE_URL cfg) \<or>
         (\<not> env_set (METABASE_API_KEY cfg) \<and>
          (\<not> env_set (METABASE_USERNAME cfg) \<or> \<not> env_set (METABASE_PASSWORD cfg)))
      then (Inl (Error env_error), [])
      else (case construct cfg of
              Inl e \<Rightarrow> (Inl e, [])
            | Inr st \<Rightarrow>
                (Inr st, [''resources/list'', ''resources/list_templates'', ''resources/read'',
                          ''tools/list'', ''tools/call''])))"


section \<open>The session manager\<close>

text \<open>\<open>getSessionToken\<close>, lines 177-206. The \<open>try\<close> block holds the POST and the read of
  \<open>response.data.id\<close>; whatever it raises becomes the authentication error.\<close>

definition auth_failed :: exn where
  "auth_failed = McpError InternalError ''Failed to authenticate with Metabase''"

definition login_body :: "config \<Rightarrow> json" where
  "login_body cfg = JObj [(''username'', env_json (METABASE_USERNAME cfg)),
                          (''password'', env_json (METABASE_PASSWORD cfg))]"

definition login_call :: "config \<Rightarrow> server_state \<Rightarrow> http_call" where
  "login_call cfg st = sent POST ''/api/session'' (login_body cfg) st"

definition getSessionToken :: "config \<Rightarrow> service \<Rightarrow> json act" where
  "getSessionToken cfg srv st =
     (if truthy (sessionToken st) then (Inr (sessionToken st), st)
      else (case request srv POST ''/api/session'' (login_body cfg) st of
              (Inl e, st1) \<Rightarrow> (Inl auth_failed, st1)
            | (Inr d, st1) \<Rightarrow>
                (case get_prop d ''id'' of
                   Inl e \<Rightarrow> (Inl auth_failed, st1)
                 | Inr tok \<Rightarrow>
                     (Inr tok,
                      st1\<lparr>sessionToken := tok,
                          headers := obj_set ''X-Metabase-Session'' tok (headers st1)\<rparr>))))"

text \<open>N sequential invocations, each on the state the one before left; the outcomes in
  order.\<close>

fun invocations :: "nat \<Rightarrow> config \<Rightarrow> service \<Rightarrow> server_state \<Rightarrow> (exn + json) list \<times> server_state" where
  "invocations 0 cfg srv st = ([], st)"
| "invocations (Suc n) cfg srv st =
     (case getSessionToken cfg srv st of
        (r, st1) \<Rightarrow> (case invocations n cfg srv st1 of (rs, st2) \<Rightarrow> (r # rs, st2)))"

text \<open>Every handler starts with \<open>if (!METABASE_API_KEY) { await this.getSessionToken(); }\<close>.\<close>

definition ensure_session :: "config \<Rightarrow> service \<Rightarrow> unit act" where
  "ensure_session cfg srv =
     (if \<not> env_set (METABASE_API_KEY cfg)
      then bnd (getSessionToken cfg srv) (\<lambda>tok. ret ())
      else ret ())"


section \<open>Reading a resource\<close>

text \<open>The handler registered for \<open>ReadResourceRequestSchema\<close>, lines 279-361. The three
  patterns are \<open>/^metabase:\/\/dashboard\/(\d+)$/\<close> and the same for card and database:
  the prefix, then one or more of the digits 0-9 up to the end of the URI.\<close>

definition match_id :: "string \<Rightarrow> string \<Rightarrow> string option" where
  "match_id pre uri =
     (let rest = drop (length pre) uri
      in if take (length pre) uri = pre \<and> rest \<noteq> [] \<and> list_all (\<lambda>c. c \<in> set ''0123456789'') rest
         then Some rest else None)"

definition contents_reply :: "string \<Rightarrow> json \<Rightarrow> json" where
  "contents_reply uri d =
     JObj [(''contents'',
            JArr [JObj [(''uri'', JStr uri),
                        (''mimeType'', JStr ''application/json''),
                        (''text'', JSON_stringify d)]])]"

definition catch :: "'a act \<Rightarrow> (exn \<Rightarrow> 'a act) \<Rightarrow> 'a act" where
  "catch m h st = (case m st of (Inl e, st1) \<Rightarrow> h e st1 | (Inr x, st1) \<Rightarrow> (Inr x, st1))"

definition read_body :: "service \<Rightarrow> string \<Rightarrow> json act" where
  "read_body srv uri =
     (case match_id ''metabase://dashboard/'' uri of
        Some i \<Rightarrow> bnd (request srv GET (''/api/dashboard/'' @ i) JUndefined)
                    (\<lambda>d. ret (contents_reply uri d))
      | None \<Rightarrow>
     (case match_id ''metabase://card/'' uri of
        Some i \<Rightarrow> bnd (request srv GET (''/api/card/'' @ i) JUndefined)
                    (\<lambda>d. ret (contents_reply uri d))
      | None \<Rightarrow>
     (case match_id ''metabase://database/'' uri of
        Some i \<Rightarrow> bnd (request srv GET (''/api/database/'' @ i) JUndefined)
                    (\<lambda>d. ret (contents_reply uri d))
      | None \<Rightarrow> throw (McpError InvalidRequest (''Invalid URI format: '' @ uri)))))"

fun read_rethrow :: "exn \<Rightarrow> json act" where
  "read_rethrow (Axios e) = throw (McpError InternalError (''Metabase API error: '' @ axios_detail e))"
| "read_rethrow e = throw e"

definition read_resource :: "config \<Rightarrow> service \<Rightarrow> string \<Rightarrow> json act" where
  "read_resource cfg srv uri =
     bnd (ensure_session cfg srv) (\<lambda>u. catch (read_body srv uri) read_rethrow)"


section \<open>Calling a tool\<close>

text \<open>The handler registered for \<open>CallToolRequestSchema\<close>, lines 853-1685. \<open>args\<close> is
  \<open>request.params?.arguments || {}\<close>: the properties of the arguments object, none when the
  request has no arguments.\<close>

definition text_reply :: "json \<Rightarrow> json" where
  "text_reply t = JObj [(''content'', JArr [JObj [(''type'', JStr ''text''), (''text'', t)]])]"

definition error_reply :: "string \<Rightarrow> json" where
  "error_reply t =
     JObj [(''content'', JArr [JObj [(''type'', JStr ''text''), (''text'', JStr t)]]),
           (''isError'', JBool True)]"

definition invalid_params :: "string \<Rightarrow> 'a act" where
  "invalid_params msg = throw (McpError InvalidParams msg)"

text \<open>A destructuring default \<open>{k = d}\<close> applies when the property is undefined.\<close>

definition dflt :: "json \<Rightarrow> json \<Rightarrow> json" where
  "dflt d v = (if v = JUndefined then d else v)"

text \<open>\<open>xs.map(f)\<close>: elements in order, the first error ends it; calling \<open>map\<close> on what is
  not an array is a TypeError. \<open>xs?.map(f)\<close> gives undefined on null and undefined.\<close>

fun map_exn :: "('a \<Rightarrow> exn + 'b) \<Rightarrow> 'a list \<Rightarrow> exn + 'b list" where
  "map_exn f [] = Inr []"
| "map_exn f (x # xs) =
     (case f x of
        Inl e \<Rightarrow> Inl e
      | Inr y \<Rightarrow> (case map_exn f xs of Inl e \<Rightarrow> Inl e | Inr ys \<Rightarrow> Inr (y # ys)))"

fun js_map :: "(json \<Rightarrow> exn + json) \<Rightarrow> json \<Rightarrow> exn + json" where
  "js_map f (JArr xs) = (case map_exn f xs of Inl e \<Rightarrow> Inl e | Inr ys \<Rightarrow> Inr (JArr ys))"
| "js_map f v = Inl TypeError"

definition opt_map :: "(json \<Rightarrow> exn + json) \<Rightarrow> json \<Rightarrow> exn + json" where
  "opt_map f v = (if nullish v then Inr JUndefined else js_map f v)"

definition case_list_dashboards :: "service \<Rightarrow> json act" where
  "case_list_dashboards srv =
     bnd (request srv GET ''/api/dashboard'' JUndefined) (\<lambda>d. ret (text_reply (JSON_stringify d)))"

definition case_list_cards :: "service \<Rightarrow> (string \<times> json) list \<Rightarrow> json act" where
  "case_list_cards srv args =
     bnd (request srv GET (''/api/card?f='' @ to_string (js_or (obj_get args ''f'') (JStr ''all''))) JUndefined)
       (\<lambda>d. ret (text_reply (JSON_stringify d)))"

definition case_list_databases :: "service \<Rightarrow> json act" where
  "case_list_databases srv =
     bnd (request srv GET ''/api/database'' JUndefined) (\<lambda>d. ret (text_reply (JSON_stringify d)))"

definition case_list_collections :: "service \<Rightarrow> json act" where
  "case_list_collections srv =
     bnd (request srv GET ''/api/collection'' JUndefined) (\<lambda>d. ret (text_reply (JSON_stringify d)))"

definition case_get_database :: "service \<Rightarrow> (string \<times> json) list \<Rightarrow> json act" where
  "case_get_database srv args =
     (let databaseId = obj_get args ''database_id''
      in if \<not> truthy databaseId then invalid_params ''Database ID is required''
         else bnd (request srv GET (''/api/database/'' @ to_string databaseId) JUndefined)
                (\<lambda>d. ret (text_reply (JSON_stringify d))))"

definition filter_field :: "json \<Rightarrow> exn + json" where
  "filter_field field =
     (if nullish field then Inl TypeError
      else Inr (JObj [(''id'', opt_prop field ''id''),
                      (''name'', opt_prop field ''name''),
                      (''database_type'', opt_prop field ''database_type'')]))"

definition filter_table :: "json \<Rightarrow> exn + json" where
  "filter_table table =
     (if nullish table then Inl TypeError
      else (case opt_map filter_field (opt_prop table ''fields'') of
              Inl e \<Rightarrow> Inl e
            | Inr fs \<Rightarrow>
                Inr (JObj [(''id'', opt_prop table ''id''),
                           (''name'', opt_prop table ''name''),
                           (''fields'', js_or fs (JArr []))])))"

definition filter_metadata :: "json \<Rightarrow> exn + json" where
  "filter_metadata d =
     (if nullish d then Inl TypeError
      else (case opt_map filter_table (opt_prop d ''tables'') of
              Inl e \<Rightarrow> Inl e
            | Inr ts \<Rightarrow>
                Inr (JObj [(''id'', opt_prop d ''id''),
                           (''name'', opt_prop d ''name''),
                           (''tables'', js_or ts (JArr []))])))"

definition case_get_database_metadata :: "service \<Rightarrow> (string \<times> json) list \<Rightarrow> json act" where
  "case_get_database_metadata srv args =
     (let databaseId = obj_get args ''database_id''
      in if \<not> truthy databaseId then invalid_params ''Database ID is required''
         else bnd (request srv GET (''/api/database/'' @ to_string databaseId @ ''/metadata'') JUndefined)
                (\<lambda>d. bnd (lift (filter_metadata d))
                   (\<lambda>filteredData. ret (text_reply (JSON_stringify filteredData)))))"

definition case_execute_card :: "service \<Rightarrow> (string \<times> json) list \<Rightarrow> json act" where
  "case_execute_card srv args =
     (let cardId = obj_get args ''card_id''
      in if \<not> truthy cardId then invalid_params ''Card ID is required''
         else bnd (request srv POST (''/api/card/'' @ to_string cardId @ ''/query'')
                     (JObj [(''parameters'', js_or (obj_get args ''parameters'') (JObj []))]))
                (\<lambda>d. ret (text_reply (JSON_stringify d))))"

definition case_get_dashboard_cards :: "service \<Rightarrow> (string \<times> json) list \<Rightarrow> json act" where
  "case_get_dashboard_cards srv args =
     (let dashboardId = obj_get args ''dashboard_id''
      in if \<not> truthy dashboardId then invalid_params ''Dashboard ID is required''
         else bnd (request srv GET (''/api/dashboard/'' @ to_string dashboardId) JUndefined)
                (\<lambda>d. if nullish d then throw TypeError
                      else ret (text_reply (JSON_stringify
                             (js_or (opt_prop d ''dashcards'') (js_or (opt_prop d ''cards'') (JArr [])))))))"

text \<open>\<open>execute_query\<close>, lines 1028-1101.\<close>

definition mongo_query :: "json \<Rightarrow> json \<Rightarrow> json \<Rightarrow> json \<Rightarrow> json" where
  "mongo_query databaseId query collectionParam nativeParameters =
     JObj [(''type'', JStr ''native''),
           (''native'', JObj [(''collection'', collectionParam),
                             (''query'', JStr (to_string query)),
                             (''template_tags'', JObj [])]),
           (''parameters'', nativeParameters),
           (''database'', databaseId)]"

definition sql_query :: "json \<Rightarrow> json \<Rightarrow> json \<Rightarrow> json" where
  "sql_query databaseId query nativeParameters =
     JObj [(''type'', JStr ''native''),
           (''native'', JObj [(''query'', query), (''template_tags'', JObj [])]),
           (''parameters'', nativeParameters),
           (''database'', databaseId)]"

definition case_execute_query :: "service \<Rightarrow> (string \<times> json) list \<Rightarrow> json act" where
  "case_execute_query srv args =
     (let databaseId = obj_get args ''database_id'';
          query = obj_get args ''query'';
          collectionParam = obj_get args ''collection'';
          nativeParameters = js_or (obj_get args ''native_parameters'') (JArr [])
      in if \<not> truthy databaseId then invalid_params ''Database ID is required''
         else if \<not> truthy query then invalid_params ''Query is required''
         else bnd (request srv GET (''/api/database/'' @ to_string databaseId) JUndefined)
                (\<lambda>db. bnd (lift (get_prop db ''engine''))
                   (\<lambda>dbEngine.
                      if strict_eq dbEngine (JStr ''mongo'') then
                        (if \<not> truthy collectionParam
                         then invalid_params ''Collection name is required for MongoDB queries''
                         else bnd (request srv POST ''/api/dataset''
                                     (mongo_query databaseId query collectionParam nativeParameters))
                                (\<lambda>d. ret (text_reply (JSON_stringify d))))
                      else bnd (request srv POST ''/api/dataset''
                                  (sql_query databaseId query nativeParameters))
                             (\<lambda>d. ret (text_reply (JSON_stringify d))))))"


text \<open>\<open>create_card\<close>, lines 1103-1156, and \<open>create_dashboard\<close>, lines 1228-1267. An
  optional field enters the body when it is not undefined.\<close>

definition optional_field :: "string \<Rightarrow> json \<Rightarrow> (string \<times> json) list" where
  "optional_field k v = (if v \<noteq> JUndefined then [(k, v)] else [])"

definition with_link :: "json \<Rightarrow> string \<Rightarrow> string \<Rightarrow> json" where
  "with_link d link msg =
     JObj (obj_set ''_message'' (JStr (msg @ link)) (obj_set ''_link'' (JStr link) (spread d)))"

definition createCardBody :: "(string \<times> json) list \<Rightarrow> json" where
  "createCardBody args =
     JObj ([(''name'', obj_get args ''name''),
            (''dataset_query'', obj_get args ''dataset_query''),
            (''display'', obj_get args ''display''),
            (''visualization_settings'', obj_get args ''visualization_settings'')]
           @ optional_field ''collection_id'' (obj_get args ''collection_id'')
           @ optional_field ''description'' (obj_get args ''description''))"

definition case_create_card :: "config \<Rightarrow> service \<Rightarrow> (string \<times> json) list \<Rightarrow> json act" where
  "case_create_card cfg srv args =
     (if \<not> truthy (obj_get args ''name'') \<or> \<not> truthy (obj_get args ''dataset_query'') \<or>
         \<not> truthy (obj_get args ''display'') \<or> \<not> truthy (obj_get args ''visualization_settings'')
      then invalid_params ''Missing required fields for create_card: name, dataset_query, display, visualization_settings''
      else bnd (request srv POST ''/api/card'' (createCardBody args))
             (\<lambda>d. bnd (lift (get_prop d ''id''))
                (\<lambda>cardId.
                   ret (text_reply (JSON_stringify
                     (with_link d
                        (to_string (env_json (METABASE_URL cfg)) @ ''/question/'' @ to_string cardId)
                        ''Card created successfully! View it at: ''))))))"

definition createDashboardBody :: "(string \<times> json) list \<Rightarrow> json" where
  "createDashboardBody args =
     JObj ([(''name'', obj_get args ''name'')]
           @ optional_field ''description'' (obj_get args ''description'')
           @ optional_field ''parameters'' (obj_get args ''parameters'')
           @ optional_field ''collection_id'' (obj_get args ''collection_id''))"

definition case_create_dashboard :: "config \<Rightarrow> service \<Rightarrow> (string \<times> json) list \<Rightarrow> json act" where
  "case_create_dashboard cfg srv args =
     (if \<not> truthy (obj_get args ''name'')
      then invalid_params ''Missing required field for create_dashboard: name''
      else bnd (request srv POST ''/api/dashboard'' (createDashboardBody args))
             (\<lambda>d. bnd (lift (get_prop d ''id''))
                (\<lambda>dashboardId.
                   ret (text_reply (JSON_stringify
                     (with_link d
                        (to_string (env_json (METABASE_URL cfg)) @ ''/dashboard/'' @ to_string dashboardId)
                        ''Dashboard created successfully! View it at: ''))))))"

text \<open>\<open>update_card\<close>, lines 1158-1185, and \<open>update_dashboard\<close>, lines 1269-1296.
  \<open>updateFields\<close> is the rest of the arguments once the id is taken out.\<close>

definition case_update_card :: "service \<Rightarrow> (string \<times> json) list \<Rightarrow> json act" where
  "case_update_card srv args =
     (let card_id = obj_get args ''card_id'';
          updateFields = obj_del [''card_id''] args
      in if \<not> truthy card_id then invalid_params ''Card ID is required for update_card''
         else if length updateFields = 0 then invalid_params ''No fields provided for update_card''
         else bnd (request srv PUT (''/api/card/'' @ to_string card_id) (JObj updateFields))
                (\<lambda>d. ret (text_reply (JSON_stringify d))))"

definition case_update_dashboard :: "service \<Rightarrow> (string \<times> json) list \<Rightarrow> json act" where
  "case_update_dashboard srv args =
     (let dashboard_id = obj_get args ''dashboard_id'';
          updateFields = obj_del [''dashboard_id''] args
      in if \<not> truthy dashboard_id then invalid_params ''Dashboard ID is required for update_dashboard''
         else if length updateFields = 0 then invalid_params ''No fields provided for update_dashboard''
         else bnd (request srv PUT (''/api/dashboard/'' @ to_string dashboard_id) (JObj updateFields))
                (\<lambda>d. ret (text_reply (JSON_stringify d))))"

text \<open>\<open>delete_card\<close>, lines 1187-1226, and \<open>delete_dashboard\<close>, lines 1298-1335.\<close>

definition archived_text :: "string \<Rightarrow> json \<Rightarrow> json \<Rightarrow> json" where
  "archived_text kind ident d =
     (if truthy d
      then JStr (kind @ '' '' @ to_string ident @ '' archived. Details: '' @ to_string (JSON_stringify d))
      else JStr (kind @ '' '' @ to_string ident @ '' archived.''))"

definition case_delete_card :: "service \<Rightarrow> (string \<times> json) list \<Rightarrow> json act" where
  "case_delete_card srv args =
     (let card_id = obj_get args ''card_id'';
          hard_delete = dflt (JBool False) (obj_get args ''hard_delete'')
      in if \<not> truthy card_id then invalid_params ''Card ID is required for delete_card''
         else if truthy hard_delete then
           bnd (request srv DELETE (''/api/card/'' @ to_string card_id) JUndefined)
             (\<lambda>d. ret (text_reply (JStr (''Card '' @ to_string card_id @ '' permanently deleted.''))))
         else
           bnd (request srv PUT (''/api/card/'' @ to_string card_id) (JObj [(''archived'', JBool True)]))
             (\<lambda>d. ret (text_reply (archived_text ''Card'' card_id d))))"

definition case_delete_dashboard :: "service \<Rightarrow> (string \<times> json) list \<Rightarrow> json act" where
  "case_delete_dashboard srv args =
     (let dashboard_id = obj_get args ''dashboard_id'';
          hard_delete = dflt (JBool False) (obj_get args ''hard_delete'')
      in if \<not> truthy dashboard_id then invalid_params ''Dashboard ID is required for delete_dashboard''
         else if truthy hard_delete then
           bnd (request srv DELETE (''/api/dashboard/'' @ to_string dashboard_id) JUndefined)
             (\<lambda>d. ret (text_reply (JStr (''Dashboard '' @ to_string dashboard_id @ '' permanently deleted.''))))
         else
           bnd (request srv PUT (''/api/dashboard/'' @ to_string dashboard_id) (JObj [(''archived'', JBool True)]))
             (\<lambda>d. ret (text_reply (archived_text ''Dashboard'' dashboard_id d))))"

text \<open>The dashboard-card tools, lines 1337-1658. \<open>format_dashcard\<close> is the arrow function
  that re-shapes an existing dashcard for the PUT.\<close>

definition format_dashcard :: "json \<Rightarrow> exn + json" where
  "format_dashcard dc =
     (if nullish dc then Inl TypeError
      else Inr (JObj [(''id'', opt_prop dc ''id''),
                      (''card_id'', opt_prop dc ''card_id''),
                      (''row'', opt_prop dc ''row''),
                      (''col'', opt_prop dc ''col''),
                      (''size_x'', opt_prop dc ''size_x''),
                      (''size_y'', opt_prop dc ''size_y''),
                      (''series'', js_or (opt_prop dc ''series'') (JArr [])),
                      (''visualization_settings'', js_or (opt_prop dc ''visualization_settings'') (JObj [])),
                      (''parameter_mappings'', js_or (opt_prop dc ''parameter_mappings'') (JArr []))]))"

definition new_dashcard :: "(string \<times> json) list \<Rightarrow> json" where
  "new_dashcard args =
     JObj [(''id'', JNum (- 1)),
           (''card_id'', obj_get args ''card_id''),
           (''row'', dflt (JNum 0) (obj_get args ''row'')),
           (''col'', dflt (JNum 0) (obj_get args ''col'')),
           (''size_x'', dflt (JNum 4) (obj_get args ''size_x'')),
           (''size_y'', dflt (JNum 4) (obj_get args ''size_y''))]"

text \<open>The elements of an array value.\<close>

fun elements :: "json \<Rightarrow> json list" where
  "elements (JArr xs) = xs"
| "elements v = []"

text \<open>\<open>[...existingCardsFormatted, entry]\<close> on \<open>dashboardResponse.data.dashcards || []\<close>\<close>

definition all_cards :: "json \<Rightarrow> json \<Rightarrow> exn + json" where
  "all_cards d entry =
     (case get_prop d ''dashcards'' of
        Inl e \<Rightarrow> Inl e
      | Inr dcs \<Rightarrow>
          (case js_map format_dashcard (js_or dcs (JArr [])) of
             Inl e \<Rightarrow> Inl e
           | Inr formatted \<Rightarrow> Inr (JArr (elements formatted @ [entry]))))"


definition case_add_card_to_dashboard :: "service \<Rightarrow> (string \<times> json) list \<Rightarrow> json act" where
  "case_add_card_to_dashboard srv args =
     (let dashboard_id = obj_get args ''dashboard_id'';
          card_id = obj_get args ''card_id''
      in if \<not> truthy dashboard_id then invalid_params ''Dashboard ID is required for add_card_to_dashboard''
         else if \<not> truthy card_id then invalid_params ''Card ID is required for add_card_to_dashboard''
         else bnd (request srv GET (''/api/dashboard/'' @ to_string dashboard_id) JUndefined)
                (\<lambda>d. bnd (lift (all_cards d (new_dashcard args)))
                   (\<lambda>allCards.
                      bnd (request srv PUT (''/api/dashboard/'' @ to_string dashboard_id @ ''/cards'')
                             (JObj [(''cards'', allCards)]))
                        (\<lambda>r. ret (text_reply (JSON_stringify r))))))"

definition case_remove_card_from_dashboard :: "service \<Rightarrow> (string \<times> json) list \<Rightarrow> json act" where
  "case_remove_card_from_dashboard srv args =
     (let dashboard_id = obj_get args ''dashboard_id'';
          dashcard_id = obj_get args ''dashcard_id''
      in if \<not> truthy dashboard_id then invalid_params ''Dashboard ID is required for remove_card_from_dashboard''
         else if \<not> truthy dashcard_id then invalid_params ''Dashcard ID is required for remove_card_from_dashboard''
         else bnd (request srv DELETE
                     (''/api/dashboard/'' @ to_string dashboard_id @ ''/cards/'' @ to_string dashcard_id) JUndefined)
                (\<lambda>r. ret (text_reply (JStr (''Card '' @ to_string dashcard_id @ '' removed from dashboard ''
                                             @ to_string dashboard_id @ ''.'')))))"

text \<open>\<open>update_dashboard_card\<close>: the dashcard whose id is \<open>dashcard_id\<close> takes the fields
  supplied, the others are re-shaped as they are.\<close>

definition updated_dashcard :: "json \<Rightarrow> json \<Rightarrow> (string \<times> json) list \<Rightarrow> json \<Rightarrow> exn + json" where
  "updated_dashcard dashcard_id parameter_mappings updateFields dc =
     (if nullish dc then Inl TypeError
      else if strict_eq (opt_prop dc ''id'') dashcard_id then
        Inr (JObj [(''id'', opt_prop dc ''id''),
                   (''card_id'', opt_prop dc ''card_id''),
                   (''row'', dflt (opt_prop dc ''row'') (obj_get updateFields ''row'')),
                   (''col'', dflt (opt_prop dc ''col'') (obj_get updateFields ''col'')),
                   (''size_x'', dflt (opt_prop dc ''size_x'') (obj_get updateFields ''size_x'')),
                   (''size_y'', dflt (opt_prop dc ''size_y'') (obj_get updateFields ''size_y'')),
                   (''series'', js_or (opt_prop dc ''series'') (JArr [])),
                   (''visualization_settings'', js_or (opt_prop dc ''visualization_settings'') (JObj [])),
                   (''parameter_mappings'',
                      dflt (js_or (opt_prop dc ''parameter_mappings'') (JArr [])) parameter_mappings)])
      else format_dashcard dc)"

definition case_update_dashboard_card :: "service \<Rightarrow> (string \<times> json) list \<Rightarrow> json act" where
  "case_update_dashboard_card srv args =
     (let dashboard_id = obj_get args ''dashboard_id'';
          dashcard_id = obj_get args ''dashcard_id'';
          parameter_mappings = obj_get args ''parameter_mappings'';
          updateFields = obj_del [''dashboard_id'', ''dashcard_id'', ''parameter_mappings''] args
      in if \<not> truthy dashboard_id then invalid_params ''Dashboard ID is required for update_dashboard_card''
         else if \<not> truthy dashcard_id then invalid_params ''Dashcard ID is required for update_dashboard_card''
         else if length updateFields = 0 \<and> parameter_mappings = JUndefined
           then invalid_params ''No fields provided for update_dashboard_card''
         else bnd (request srv GET (''/api/dashboard/'' @ to_string dashboard_id) JUndefined)
                (\<lambda>d. bnd (lift (get_prop d ''dashcards''))
                   (\<lambda>dcs. bnd (lift (js_map (updated_dashcard dashcard_id parameter_mappings updateFields)
                                       (js_or dcs (JArr []))))
                      (\<lambda>updatedCards.
                         bnd (request srv PUT (''/api/dashboard/'' @ to_string dashboard_id @ ''/cards'')
                                (JObj [(''cards'', updatedCards)]))
                           (\<lambda>r. ret (text_reply (JSON_stringify r)))))))"

text \<open>\<open>create_dashboard_only_card\<close>: the new entry has no card; the card's definition
  travels in its visualization settings.\<close>

definition virtualCard :: "(string \<times> json) list \<Rightarrow> json" where
  "virtualCard args =
     JObj [(''id'', JNum (- 1)),
           (''card_id'', JNull),
           (''row'', dflt (JNum 0) (obj_get args ''row'')),
           (''col'', dflt (JNum 0) (obj_get args ''col'')),
           (''size_x'', dflt (JNum 4) (obj_get args ''size_x'')),
           (''size_y'', dflt (JNum 4) (obj_get args ''size_y'')),
           (''series'', JArr []),
           (''parameter_mappings'', JArr []),
           (''visualization_settings'',
              JObj (obj_set ''virtual_card''
                      (JObj [(''name'', obj_get args ''name''),
                             (''display'', obj_get args ''display''),
                             (''visualization_settings'', obj_get args ''visualization_settings''),
                             (''dataset_query'', obj_get args ''dataset_query'')])
                      (spread (obj_get args ''visualization_settings''))))]"

definition case_create_dashboard_only_card :: "service \<Rightarrow> (string \<times> json) list \<Rightarrow> json act" where
  "case_create_dashboard_only_card srv args =
     (let dashboard_id = obj_get args ''dashboard_id''
      in if \<not> truthy dashboard_id then invalid_params ''Dashboard ID is required for create_dashboard_only_card''
         else if \<not> truthy (obj_get args ''name'') \<or> \<not> truthy (obj_get args ''dataset_query'') \<or>
                 \<not> truthy (obj_get args ''display'') \<or> \<not> truthy (obj_get args ''visualization_settings'')
           then invalid_params ''Missing required fields: name, dataset_query, display, visualization_settings''
         else bnd (request srv GET (''/api/dashboard/'' @ to_string dashboard_id) JUndefined)
                (\<lambda>d. bnd (lift (all_cards d (virtualCard args)))
                   (\<lambda>allCards.
                      bnd (request srv PUT (''/api/dashboard/'' @ to_string dashboard_id @ ''/cards'')
                             (JObj [(''cards'', allCards)]))
                        (\<lambda>r. ret (text_reply (JSON_stringify r))))))"

text \<open>The \<open>switch\<close> on the tool's name, its \<open>default\<close> branch, and the \<open>catch\<close> around
  it, lines 863-1684: an axios error becomes a reply flagged \<open>isError\<close>, any other error
  is thrown on to the protocol layer.\<close>

definition tool_switch :: "config \<Rightarrow> service \<Rightarrow> string \<Rightarrow> (string \<times> json) list \<Rightarrow> json act" where
  "tool_switch cfg srv name args =
     (if name = ''list_dashboards'' then case_list_dashboards srv
      else if name = ''list_cards'' then case_list_cards srv args
      else if name = ''list_databases'' then case_list_databases srv
      else if name = ''list_collections'' then case_list_collections srv
      else if name = ''get_database'' then case_get_database srv args
      else if name = ''get_database_metadata'' then case_get_database_metadata srv args
      else if name = ''execute_card'' then case_execute_card srv args
      else if name = ''get_dashboard_cards'' then case_get_dashboard_cards srv args
      else if name = ''execute_query'' then case_execute_query srv args
      else if name = ''create_card'' then case_create_card cfg srv args
      else if name = ''update_card'' then case_update_card srv args
      else if name = ''delete_card'' then case_delete_card srv args
      else if name = ''create_dashboard'' then case_create_dashboard cfg srv args
      else if name = ''update_dashboard'' then case_update_dashboard srv args
      else if name = ''delete_dashboard'' then case_delete_dashboard srv args
      else if name = ''add_card_to_dashboard'' then case_add_card_to_dashboard srv args
      else if name = ''remove_card_from_dashboard'' then case_remove_card_from_dashboard srv args
      else if name = ''update_dashboard_card'' then case_update_dashboard_card srv args
      else if name = ''create_dashboard_only_card'' then case_create_dashboard_only_card srv args
      else ret (error_reply (''Unknown tool: '' @ name)))"

fun tool_rethrow :: "exn \<Rightarrow> json act" where
  "tool_rethrow (Axios e) = ret (error_reply (''Metabase API error: '' @ axios_detail e))"
| "tool_rethrow e = throw e"

definition call_tool :: "config \<Rightarrow> service \<Rightarrow> string \<Rightarrow> (string \<times> json) list \<Rightarrow> json act" where
  "call_tool cfg srv name args =
     bnd (ensure_session cfg srv) (\<lambda>u. catch (tool_switch cfg srv name args) tool_rethrow)"

text \<open>The names the \<open>switch\<close> has a case for, and, from the \<open>inputSchema\<close>s of the tool
  catalog (lines 369-851), each tool's required arguments of type number that name an id.\<close>

definition tool_names :: "string list" where
  "tool_names =
     [''list_dashboards'', ''list_cards'', ''list_databases'', ''list_collections'',
      ''get_database'', ''get_database_metadata'', ''execute_card'', ''get_dashboard_cards'',
      ''execute_query'', ''create_card'', ''update_card'', ''delete_card'', ''create_dashboard'',
      ''update_dashboard'', ''delete_dashboard'', ''add_card_to_dashboard'',
      ''remove_card_from_dashboard'', ''update_dashboard_card'', ''create_dashboard_only_card'']"

definition required_ids :: "(string \<times> string) list" where
  "required_ids =
     [(''get_database'', ''database_id''),
      (''get_database_metadata'', ''database_id''),
      (''execute_card'', ''card_id''),
      (''get_dashboard_cards'', ''dashboard_id''),
      (''execute_query'', ''database_id''),
      (''update_card'', ''card_id''),
      (''delete_card'', ''card_id''),
      (''update_dashboard'', ''dashboard_id''),
      (''delete_dashboard'', ''dashboard_id''),
      (''add_card_to_dashboard'', ''dashboard_id''),
      (''add_card_to_dashboard'', ''card_id''),
      (''remove_card_from_dashboard'', ''dashboard_id''),
      (''remove_card_from_dashboard'', ''dashcard_id''),
      (''update_dashboard_card'', ''dashboard_id''),
      (''update_dashboard_card'', ''dashcard_id''),
      (''create_dashboard_only_card'', ''dashboard_id'')]"


text \<open>How many of the requests use a method.\<close>

definition count_of :: "http_method \<Rightarrow> http_call list \<Rightarrow> nat" where
  "count_of m cs = length (filter (\<lambda>c. meth c = m) cs)"

text \<open>The error of the first request among \<open>cs\<close> that the service fails, when \<open>cs\<close> are sent
  one after the other to a service that has seen the requests \<open>h\<close>.\<close>

fun first_failure :: "service \<Rightarrow> http_call list \<Rightarrow> http_call list \<Rightarrow> axios_error option" where
  "first_failure srv h [] = None"
| "first_failure srv h (c # cs) =
     (case srv h c of Inl e \<Rightarrow> Some e | Inr d \<Rightarrow> first_failure srv (h @ [c]) cs)"

text \<open>An action passes HTTP failures on: it only adds requests to the trace, and when one
  of them fails, the action ends with that axios error.\<close>

definition passes_failures :: "service \<Rightarrow> 'a act \<Rightarrow> bool" where
  "passes_failures srv m =
     (\<forall>st. \<exists>cs. trace (snd (m st)) = trace st @ cs \<and>
                (\<forall>e. first_failure srv (trace st) cs = Some e \<longrightarrow> fst (m st) = Inl (Axios e)))"


text \<open>The message of the invalid_params error a tool raises when its required id \<open>k\<close>
  fails the presence test (a tool with two ids tests the dashboard id first).\<close>

definition id_required :: "string \<Rightarrow> string \<Rightarrow> (string \<times> json) list \<Rightarrow> string" where
  "id_required t k a =
     (if t = ''get_database'' \<or> t = ''get_database_metadata'' \<or> t = ''execute_query''
        then ''Database ID is required''
      else if t = ''execute_card'' then ''Card ID is required''
      else if t = ''get_dashboard_cards'' then ''Dashboard ID is required''
      else if t = ''update_card'' \<or> t = ''delete_card'' then ''Card ID is required for '' @ t
      else if k = ''dashboard_id'' \<or> \<not> truthy (obj_get a ''dashboard_id'')
        then ''Dashboard ID is required for '' @ t
      else if k = ''card_id'' then ''Card ID is required for '' @ t
      else ''Dashcard ID is required for '' @ t)"


section \<open>Example configurations and services\<close>

text \<open>A username/password configuration and an API-key configuration, with the states
  startup leaves them in; a service that is down; and a service that answers by method and
  URL from a table, with a 404 for anything else.\<close>

definition cfg_userpass :: config where
  "cfg_userpass = \<lparr>METABASE_URL = Some ''http://mb'', METABASE_USERNAME = Some ''u'',
                   METABASE_PASSWORD = Some ''p'', METABASE_API_KEY = None\<rparr>"

definition cfg_apikey :: config where
  "cfg_apikey = \<lparr>METABASE_URL = Some ''http://mb'', METABASE_USERNAME = None,
                 METABASE_PASSWORD = None, METABASE_API_KEY = Some ''k''\<rparr>"

definition st_userpass :: server_state where
  "st_userpass = \<lparr>sessionToken = JNull,
                  headers = [(''Content-Type'', JStr ''application/json'')], trace = []\<rparr>"

definition st_apikey :: server_state where
  "st_apikey = \<lparr>sessionToken = JStr ''api_key_used'',
                headers = [(''Content-Type'', JStr ''application/json''), (''X-API-Key'', JStr ''k'')],
                trace = []\<rparr>"

definition srv_down :: service where
  "srv_down h c = Inl (AxiosError None ''connect ECONNREFUSED'')"

definition not_found :: axios_error where
  "not_found = AxiosError (Some (JObj [(''message'', JStr ''Not found.'')]))
                 ''Request failed with status code 404''"

fun answer :: "((http_method \<times> string) \<times> json) list \<Rightarrow> http_method \<Rightarrow> string \<Rightarrow> axios_error + json" where
  "answer [] m u = Inl not_found"
| "answer (((m', u'), d) # tbl) m u = (if m' = m \<and> u' = u then Inr d else answer tbl m u)"

definition srv_table :: "((http_method \<times> string) \<times> json) list \<Rightarrow> service" where
  "srv_table tbl h c = answer tbl (meth c) (url c)"


section \<open>Basic facts about requests and traces\<close>

lemma request_eq:
  "request srv m u b st =
     (case srv (trace st) (sent m u b st) of Inl e \<Rightarrow> Inl (Axios e) | Inr d \<Rightarrow> Inr d,
      st\<lparr>trace := trace st @ [sent m u b st]\<rparr>)"
  by (simp add: request_def)

lemma issued_append [simp]: "issued st (st\<lparr>trace := trace st @ cs\<rparr>) = cs"
  by (simp add: issued_def)

lemma issued_self [simp]: "issued st st = []"
  by (simp add: issued_def)


text \<open>The example states are the ones startup leaves.\<close>

lemma startup_examples:
  "fst (startup cfg_userpass) = Inr st_userpass" "fst (startup cfg_apikey) = Inr st_apikey"
  by (simp_all add: startup_def construct_def cfg_userpass_def cfg_apikey_def st_userpass_def
      st_apikey_def)

lemma obj_get_set_same [simp]: "obj_get (obj_set k v kvs) k = v"
  by (induction kvs) auto

lemma obj_get_set_other [simp]: "k' \<noteq> k \<Longrightarrow> obj_get (obj_set k v kvs) k' = obj_get kvs k'"
  by (induction kvs) auto

lemma obj_get_del_same [simp]: "k \<in> set ks \<Longrightarrow> obj_get (obj_del ks kvs) k = JUndefined"
  by (induction kvs) (auto simp: obj_del_def)

lemma obj_get_del_other [simp]: "k \<notin> set ks \<Longrightarrow> obj_get (obj_del ks kvs) k = obj_get kvs k"
  by (induction kvs) (auto simp: obj_del_def)


section \<open>Startup configuration (C3)\<close>

text \<open>
  C3, as the code has it. Startup raises the configuration error, with no request handler
  registered, exactly when the base URL is unset or empty, or no API key is set and the
  username or the password is unset or empty. Otherwise it succeeds and registers the five
  handlers: the base URL is set and at least one of "API key set" and "username and password
  both set" holds. Both may hold together, and a partial username/password pair is accepted
  beside an API key.
\<close>

theorem startup_outcome:
  "(env_set (METABASE_URL cfg) \<and>
      (env_set (METABASE_API_KEY cfg) \<or>
       (env_set (METABASE_USERNAME cfg) \<and> env_set (METABASE_PASSWORD cfg)))
     \<longrightarrow> (\<exists>st. startup cfg =
            (Inr st, [''resources/list'', ''resources/list_templates'', ''resources/read'',
                      ''tools/list'', ''tools/call'']))) \<and>
   (\<not> (env_set (METABASE_URL cfg) \<and>
        (env_set (METABASE_API_KEY cfg) \<or>
         (env_set (METABASE_USERNAME cfg) \<and> env_set (METABASE_PASSWORD cfg))))
     \<longrightarrow> startup cfg = (Inl (Error env_error), []))"
  by (auto simp: startup_def construct_def)

text \<open>Username and password set and no API key: startup succeeds with no credential yet.
  Username alone and no API key: the configuration error, no handler registered.\<close>

theorem startup_outcome_witness:
  "startup \<lparr>METABASE_URL = Some ''http://mb'', METABASE_USERNAME = Some ''u'',
            METABASE_PASSWORD = Some ''p'', METABASE_API_KEY = None\<rparr> =
     (Inr \<lparr>sessionToken = JNull, headers = [(''Content-Type'', JStr ''application/json'')], trace = []\<rparr>,
      [''resources/list'', ''resources/list_templates'', ''resources/read'', ''tools/list'', ''tools/call''])
   \<and> startup \<lparr>METABASE_URL = Some ''http://mb'', METABASE_USERNAME = Some ''u'',
            METABASE_PASSWORD = None, METABASE_API_KEY = None\<rparr> = (Inl (Error env_error), [])"
  using startup_outcome [of "\<lparr>METABASE_URL = Some ''http://mb'', METABASE_USERNAME = Some ''u'',
            METABASE_PASSWORD = Some ''p'', METABASE_API_KEY = None\<rparr>"]
    startup_outcome [of "\<lparr>METABASE_URL = Some ''http://mb'', METABASE_USERNAME = Some ''u'',
            METABASE_PASSWORD = None, METABASE_API_KEY = None\<rparr>"]
  by (simp add: startup_def construct_def)

text \<open>C3 as stated fails twice. With an API key and a username but no password, only one
  of username/password is supplied, and startup succeeds. With an API key, a username and a
  password, both authentication modes hold, not exactly one, and startup succeeds.\<close>

theorem startup_exactly_one_counterexample:
  "env_set (METABASE_USERNAME \<lparr>METABASE_URL = Some ''http://mb'', METABASE_USERNAME = Some ''u'',
            METABASE_PASSWORD = None, METABASE_API_KEY = Some ''k''\<rparr>) \<and>
   \<not> env_set (METABASE_PASSWORD \<lparr>METABASE_URL = Some ''http://mb'', METABASE_USERNAME = Some ''u'',
            METABASE_PASSWORD = None, METABASE_API_KEY = Some ''k''\<rparr>) \<and>
   startup \<lparr>METABASE_URL = Some ''http://mb'', METABASE_USERNAME = Some ''u'',
            METABASE_PASSWORD = None, METABASE_API_KEY = Some ''k''\<rparr> =
     (Inr \<lparr>sessionToken = JStr ''api_key_used'',
           headers = [(''Content-Type'', JStr ''application/json''), (''X-API-Key'', JStr ''k'')],
           trace = []\<rparr>,
      [''resources/list'', ''resources/list_templates'', ''resources/read'', ''tools/list'', ''tools/call'']) \<and>
   startup \<lparr>METABASE_URL = Some ''http://mb'', METABASE_USERNAME = Some ''u'',
            METABASE_PASSWORD = Some ''p'', METABASE_API_KEY = Some ''k''\<rparr> =
     (Inr \<lparr>sessionToken = JStr ''api_key_used'',
           headers = [(''Content-Type'', JStr ''application/json''), (''X-API-Key'', JStr ''k'')],
           trace = []\<rparr>,
      [''resources/list'', ''resources/list_templates'', ''resources/read'', ''tools/list'', ''tools/call''])"
  by (simp add: startup_def construct_def)


section \<open>The session credential (C1)\<close>

lemma getSessionToken_cached:
  "truthy (sessionToken st) \<Longrightarrow> getSessionToken cfg srv st = (Inr (sessionToken st), st)"
  by (simp add: getSessionToken_def)

lemma getSessionToken_failed:
  assumes "\<not> truthy (sessionToken st)" and "srv (trace st) (login_call cfg st) = Inl e"
  shows "getSessionToken cfg srv st = (Inl auth_failed, st\<lparr>trace := trace st @ [login_call cfg st]\<rparr>)"
  using assms by (simp add: getSessionToken_def request_eq login_call_def)

lemma getSessionToken_stored:
  assumes "\<not> truthy (sessionToken st)" and "srv (trace st) (login_call cfg st) = Inr d"
    and "get_prop d ''id'' = Inr tok"
  shows "getSessionToken cfg srv st =
           (Inr tok, st\<lparr>trace := trace st @ [login_call cfg st], sessionToken := tok,
                        headers := obj_set ''X-Metabase-Session'' tok (headers st)\<rparr>)"
  using assms by (simp add: getSessionToken_def request_eq login_call_def)

lemma getSessionToken_retries:
  "\<not> truthy (sessionToken st) \<Longrightarrow>
   issued st (snd (getSessionToken cfg srv st)) = [login_call cfg st]"
  by (simp add: getSessionToken_def request_eq login_call_def issued_def split: sum.splits)

lemma invocations_cached:
  "truthy (sessionToken st) \<Longrightarrow> invocations n cfg srv st = (replicate n (Inr (sessionToken st)), st)"
  by (induction n) (simp_all add: getSessionToken_cached)

text \<open>
  C1. With no credential stored (the state of username/password mode until a login has
  succeeded): if the login POST to /api/session fails, \<open>getSessionToken\<close> raises the
  authentication error, of kind internal_error, and changes neither the token nor the
  headers, so the next invocation sends the login again. If the POST succeeds and its body
  carries a token (a non-empty id), the token is stored and installed as the
  X-Metabase-Session default header, every later invocation returns it without a request
  whatever the service would answer, and N sequential invocations, N at least 1, send exactly
  one login.
\<close>

theorem getSessionToken_login_once:
  assumes unset: "\<not> truthy (sessionToken st)"
  shows "(srv (trace st) (login_call cfg st) = Inl e \<longrightarrow>
            getSessionToken cfg srv st =
              (Inl (McpError InternalError ''Failed to authenticate with Metabase''),
               st\<lparr>trace := trace st @ [login_call cfg st]\<rparr>) \<and>
            (\<forall>srv'. issued (st\<lparr>trace := trace st @ [login_call cfg st]\<rparr>)
                       (snd (getSessionToken cfg srv' (st\<lparr>trace := trace st @ [login_call cfg st]\<rparr>)))
                     = [login_call cfg st])) \<and>
         (srv (trace st) (login_call cfg st) = Inr d \<and> get_prop d ''id'' = Inr tok \<and> truthy tok \<longrightarrow>
            getSessionToken cfg srv st =
              (Inr tok, st\<lparr>trace := trace st @ [login_call cfg st], sessionToken := tok,
                           headers := obj_set ''X-Metabase-Session'' tok (headers st)\<rparr>) \<and>
            (\<forall>n srv'. invocations n cfg srv'
                        (st\<lparr>trace := trace st @ [login_call cfg st], sessionToken := tok,
                            headers := obj_set ''X-Metabase-Session'' tok (headers st)\<rparr>) =
                      (replicate n (Inr tok),
                       st\<lparr>trace := trace st @ [login_call cfg st], sessionToken := tok,
                           headers := obj_set ''X-Metabase-Session'' tok (headers st)\<rparr>)) \<and>
            (\<forall>n. fst (invocations (Suc n) cfg srv st) = replicate (Suc n) (Inr tok) \<and>
                 issued st (snd (invocations (Suc n) cfg srv st)) = [login_call cfg st]))"
proof (intro conjI impI)
  assume fail: "srv (trace st) (login_call cfg st) = Inl e"
  show "getSessionToken cfg srv st =
          (Inl (McpError InternalError ''Failed to authenticate with Metabase''),
           st\<lparr>trace := trace st @ [login_call cfg st]\<rparr>)"
    using unset fail by (simp add: getSessionToken_failed auth_failed_def)
  show "\<forall>srv'. issued (st\<lparr>trace := trace st @ [login_call cfg st]\<rparr>)
                       (snd (getSessionToken cfg srv' (st\<lparr>trace := trace st @ [login_call cfg st]\<rparr>)))
                     = [login_call cfg st]"
    using unset getSessionToken_retries [of "st\<lparr>trace := trace st @ [login_call cfg st]\<rparr>" cfg]
    by (simp add: login_call_def sent_def)
next
  assume ok: "srv (trace st) (login_call cfg st) = Inr d \<and> get_prop d ''id'' = Inr tok \<and> truthy tok"
  let ?st' = "st\<lparr>trace := trace st @ [login_call cfg st], sessionToken := tok,
                           headers := obj_set ''X-Metabase-Session'' tok (headers st)\<rparr>"
  show first: "getSessionToken cfg srv st = (Inr tok, ?st')"
    using unset ok by (simp add: getSessionToken_stored)
  have cached: "truthy (sessionToken ?st')" using ok by simp
  show later: "\<forall>n srv'. invocations n cfg srv' ?st' = (replicate n (Inr tok), ?st')"
    using invocations_cached [OF cached] by simp
  show "\<forall>n. fst (invocations (Suc n) cfg srv st) = replicate (Suc n) (Inr tok) \<and>
             issued st (snd (invocations (Suc n) cfg srv st)) = [login_call cfg st]"
    using first later by (simp add: issued_def)
qed

theorem getSessionToken_login_once_witness:
  "getSessionToken cfg_userpass srv_down st_userpass =
     (Inl (McpError InternalError ''Failed to authenticate with Metabase''),
      st_userpass\<lparr>trace := trace st_userpass @ [login_call cfg_userpass st_userpass]\<rparr>) \<and>
   fst (invocations (Suc 2) cfg_userpass
          (srv_table [((POST, ''/api/session''), JObj [(''id'', JStr ''tok'')])]) st_userpass) =
     replicate (Suc 2) (Inr (JStr ''tok'')) \<and>
   issued st_userpass
     (snd (invocations (Suc 2) cfg_userpass
             (srv_table [((POST, ''/api/session''), JObj [(''id'', JStr ''tok'')])]) st_userpass)) =
     [login_call cfg_userpass st_userpass]"
proof -
  let ?srv = "srv_table [((POST, ''/api/session''), JObj [(''id'', JStr ''tok'')])]"
  have unset: "\<not> truthy (sessionToken st_userpass)"
    by (simp add: st_userpass_def)
  have down: "srv_down (trace st_userpass) (login_call cfg_userpass st_userpass) =
                Inl (AxiosError None ''connect ECONNREFUSED'')"
    by (simp add: srv_down_def)
  have ok: "?srv (trace st_userpass) (login_call cfg_userpass st_userpass) = Inr (JObj [(''id'', JStr ''tok'')])
            \<and> get_prop (JObj [(''id'', JStr ''tok'')]) ''id'' = Inr (JStr ''tok'') \<and> truthy (JStr ''tok'')"
    by (simp add: srv_table_def login_call_def sent_def)
  show ?thesis
    using getSessionToken_login_once [OF unset, of srv_down cfg_userpass
            "AxiosError None ''connect ECONNREFUSED''" JUndefined JUndefined]
      getSessionToken_login_once [OF unset, of ?srv cfg_userpass
            "AxiosError None []" "JObj [(''id'', JStr ''tok'')]" "JStr ''tok''"]
      down ok
    by blast
qed

text \<open>A login response without a usable id (here the empty string) is stored like any other,
  but does not count as a credential: the next invocation logs in again.\<close>

lemma getSessionToken_empty_token:
  "map url (trace (snd (invocations (Suc (Suc 0)) cfg_userpass
      (srv_table [((POST, ''/api/session''), JObj [(''id'', JStr [])])]) st_userpass))) =
     [''/api/session'', ''/api/session'']"
  by (simp add: getSessionToken_def request_eq st_userpass_def srv_table_def sent_def)


section \<open>The credential check that opens every handler\<close>

lemma ensure_session_trace:
  "trace (snd (ensure_session cfg srv st)) =
     trace st @ (if env_set (METABASE_API_KEY cfg) \<or> truthy (sessionToken st) then []
                 else [login_call cfg st])"
  by (simp add: ensure_session_def ret_def bnd_def getSessionToken_def request_eq login_call_def
      split: sum.splits)

lemma ensure_session_issued:
  "ensure_session cfg srv st = (r, st1) \<Longrightarrow>
   issued st st1 = (if env_set (METABASE_API_KEY cfg) \<or> truthy (sessionToken st) then []
                    else [login_call cfg st])"
  using ensure_session_trace [of cfg srv st] by (simp add: issued_def)

lemma ensure_session_apikey:
  "env_set (METABASE_API_KEY cfg) \<Longrightarrow> ensure_session cfg srv st = (Inr (), st)"
  by (simp add: ensure_session_def ret_def)

lemma ensure_session_cached:
  "truthy (sessionToken st) \<Longrightarrow> ensure_session cfg srv st = (Inr (), st)"
  by (simp add: ensure_session_def ret_def bnd_def getSessionToken_def)

lemma ensure_session_login:
  assumes "\<not> env_set (METABASE_API_KEY cfg)" "\<not> truthy (sessionToken st)"
    "srv (trace st) (login_call cfg st) = Inr d" "get_prop d ''id'' = Inr tok"
  shows "ensure_session cfg srv st =
           (Inr (), st\<lparr>trace := trace st @ [login_call cfg st], sessionToken := tok,
                        headers := obj_set ''X-Metabase-Session'' tok (headers st)\<rparr>)"
  using assms by (simp add: ensure_session_def ret_def bnd_def getSessionToken_stored)

lemma ensure_session_login_failed:
  assumes "\<not> env_set (METABASE_API_KEY cfg)" "\<not> truthy (sessionToken st)"
    "srv (trace st) (login_call cfg st) = Inl e"
  shows "ensure_session cfg srv st =
           (Inl auth_failed, st\<lparr>trace := trace st @ [login_call cfg st]\<rparr>)"
  using assms by (simp add: ensure_session_def ret_def bnd_def getSessionToken_failed)


section \<open>Reading a resource (C4)\<close>

lemma match_id_prefix: "match_id pre uri = Some i \<Longrightarrow> uri = pre @ i"
  by (auto simp: match_id_def Let_def split: if_splits) (metis append_take_drop_id)

lemma match_card_not_dashboard:
  "match_id ''metabase://card/'' uri = Some i \<Longrightarrow> match_id ''metabase://dashboard/'' uri = None"
  by (drule match_id_prefix) (simp add: match_id_def)

lemma match_database_not_dashboard:
  "match_id ''metabase://database/'' uri = Some i \<Longrightarrow> match_id ''metabase://dashboard/'' uri = None"
  by (drule match_id_prefix) (simp add: match_id_def)

lemma match_database_not_card:
  "match_id ''metabase://database/'' uri = Some i \<Longrightarrow> match_id ''metabase://card/'' uri = None"
  by (drule match_id_prefix) (simp add: match_id_def)

lemma read_resource_after:
  "ensure_session cfg srv st = (Inr (), st1) \<Longrightarrow>
   read_resource cfg srv uri st = catch (read_body srv uri) read_rethrow st1"
  by (simp add: read_resource_def bnd_def)

lemma read_no_match:
  assumes "match_id ''metabase://dashboard/'' uri = None" "match_id ''metabase://card/'' uri = None"
    "match_id ''metabase://database/'' uri = None"
  shows "catch (read_body srv uri) read_rethrow st1 =
           (Inl (McpError InvalidRequest (''Invalid URI format: '' @ uri)), st1)"
  using assms by (simp add: read_body_def catch_def throw_def)

lemma read_get:
  "catch (bnd (request srv GET u JUndefined) (\<lambda>d. ret (contents_reply uri d))) read_rethrow st1 =
     (case srv (trace st1) (sent GET u JUndefined st1) of
        Inl e \<Rightarrow> Inl (McpError InternalError (''Metabase API error: '' @ axios_detail e))
      | Inr d \<Rightarrow> Inr (contents_reply uri d),
      st1\<lparr>trace := trace st1 @ [sent GET u JUndefined st1]\<rparr>)"
  by (simp add: catch_def bnd_def request_eq ret_def throw_def split: sum.splits)

lemma read_match:
  assumes "match_id ''metabase://dashboard/'' uri = Some i \<and> u = ''/api/dashboard/'' @ i \<or>
           match_id ''metabase://card/'' uri = Some i \<and> u = ''/api/card/'' @ i \<or>
           match_id ''metabase://database/'' uri = Some i \<and> u = ''/api/database/'' @ i"
  shows "catch (read_body srv uri) read_rethrow st1 =
     (case srv (trace st1) (sent GET u JUndefined st1) of
        Inl e \<Rightarrow> Inl (McpError InternalError (''Metabase API error: '' @ axios_detail e))
      | Inr d \<Rightarrow> Inr (contents_reply uri d),
      st1\<lparr>trace := trace st1 @ [sent GET u JUndefined st1]\<rparr>)"
  using assms
  by (auto simp: read_body_def read_get match_card_not_dashboard match_database_not_dashboard
      match_database_not_card)

text \<open>
  C4, as the code has it. The handler resolves the credential before it looks at the URI:
  with an API key or a stored token that sends nothing, otherwise it sends the login POST to
  /api/session. Once the credential is resolved: a URI that matches none of the patterns
  dashboard/<digits>, card/<digits>, database/<digits> under metabase:// fails with an
  invalid_request error whose message names the URI, and no further request is sent; a URI
  that matches sends exactly one GET to the corresponding endpoint and, when the GET
  succeeds, returns the body pretty-printed as the only content item, tagged with the URI
  (when it fails, an internal_error carrying the service's message).
\<close>

theorem read_resource_after_session:
  assumes ens: "ensure_session cfg srv st = (Inr (), st1)"
  shows "issued st st1 = (if env_set (METABASE_API_KEY cfg) \<or> truthy (sessionToken st) then []
                          else [login_call cfg st]) \<and>
    (match_id ''metabase://dashboard/'' uri = None \<and> match_id ''metabase://card/'' uri = None \<and>
     match_id ''metabase://database/'' uri = None \<longrightarrow>
       read_resource cfg srv uri st =
         (Inl (McpError InvalidRequest (''Invalid URI format: '' @ uri)), st1)) \<and>
    (match_id ''metabase://dashboard/'' uri = Some i \<and> u = ''/api/dashboard/'' @ i \<or>
     match_id ''metabase://card/'' uri = Some i \<and> u = ''/api/card/'' @ i \<or>
     match_id ''metabase://database/'' uri = Some i \<and> u = ''/api/database/'' @ i \<longrightarrow>
       read_resource cfg srv uri st =
         (case srv (trace st1) (sent GET u JUndefined st1) of
            Inl e \<Rightarrow> Inl (McpError InternalError (''Metabase API error: '' @ axios_detail e))
          | Inr d \<Rightarrow>
              Inr (JObj [(''contents'',
                          JArr [JObj [(''uri'', JStr uri),
                                      (''mimeType'', JStr ''application/json''),
                                      (''text'', JSON_stringify d)]])]),
          st1\<lparr>trace := trace st1 @ [sent GET u JUndefined st1]\<rparr>))"
proof (intro conjI impI)
  show "issued st st1 = (if env_set (METABASE_API_KEY cfg) \<or> truthy (sessionToken st) then []
                          else [login_call cfg st])"
    using ens by (rule ensure_session_issued)
next
  assume "match_id ''metabase://dashboard/'' uri = None \<and> match_id ''metabase://card/'' uri = None \<and>
     match_id ''metabase://database/'' uri = None"
  then show "read_resource cfg srv uri st =
         (Inl (McpError InvalidRequest (''Invalid URI format: '' @ uri)), st1)"
    by (simp add: read_resource_after [OF ens] read_no_match)
next
  assume m: "match_id ''metabase://dashboard/'' uri = Some i \<and> u = ''/api/dashboard/'' @ i \<or>
     match_id ''metabase://card/'' uri = Some i \<and> u = ''/api/card/'' @ i \<or>
     match_id ''metabase://database/'' uri = Some i \<and> u = ''/api/database/'' @ i"
  show "read_resource cfg srv uri st =
         (case srv (trace st1) (sent GET u JUndefined st1) of
            Inl e \<Rightarrow> Inl (McpError InternalError (''Metabase API error: '' @ axios_detail e))
          | Inr d \<Rightarrow>
              Inr (JObj [(''contents'',
                          JArr [JObj [(''uri'', JStr uri),
                                      (''mimeType'', JStr ''application/json''),
                                      (''text'', JSON_stringify d)]])]),
          st1\<lparr>trace := trace st1 @ [sent GET u JUndefined st1]\<rparr>)"
    unfolding read_resource_after [OF ens] read_match [OF m] contents_reply_def ..
qed

text \<open>With an API key: the bad URI is refused with nothing sent, the good one sends one
  GET.\<close>

theorem read_resource_after_session_witness:
  "read_resource cfg_apikey (srv_table [((GET, ''/api/dashboard/42''), JObj [(''id'', JNum 42)])])
     ''metabase://widget/5'' st_apikey =
     (Inl (McpError InvalidRequest ''Invalid URI format: metabase://widget/5''), st_apikey) \<and>
   read_resource cfg_apikey (srv_table [((GET, ''/api/dashboard/42''), JObj [(''id'', JNum 42)])])
     ''metabase://dashboard/42'' st_apikey =
     (Inr (JObj [(''contents'',
                  JArr [JObj [(''uri'', JStr ''metabase://dashboard/42''),
                              (''mimeType'', JStr ''application/json''),
                              (''text'', JSON_stringify (JObj [(''id'', JNum 42)]))]])]),
      st_apikey\<lparr>trace := trace st_apikey @ [sent GET ''/api/dashboard/42'' JUndefined st_apikey]\<rparr>)"
proof -
  let ?srv = "srv_table [((GET, ''/api/dashboard/42''), JObj [(''id'', JNum 42)])]"
  have ens: "ensure_session cfg_apikey ?srv st_apikey = (Inr (), st_apikey)"
    by (simp add: ensure_session_apikey cfg_apikey_def)
  have none: "match_id ''metabase://dashboard/'' ''metabase://widget/5'' = None \<and>
      match_id ''metabase://card/'' ''metabase://widget/5'' = None \<and>
      match_id ''metabase://database/'' ''metabase://widget/5'' = None"
    by (simp add: match_id_def)
  have some: "match_id ''metabase://dashboard/'' ''metabase://dashboard/42'' = Some ''42'' \<and>
      ''/api/dashboard/42'' = ''/api/dashboard/'' @ ''42''"
    by (simp add: match_id_def)
  have ans: "?srv (trace st_apikey) (sent GET ''/api/dashboard/42'' JUndefined st_apikey) =
      Inr (JObj [(''id'', JNum 42)])"
    by (simp add: srv_table_def sent_def)
  note T1 = read_resource_after_session [OF ens, of "''metabase://widget/5''" "''42''" "''/api/dashboard/42''"]
  note T2 = read_resource_after_session [OF ens, of "''metabase://dashboard/42''" "''42''" "''/api/dashboard/42''"]
  have A: "read_resource cfg_apikey ?srv ''metabase://widget/5'' st_apikey =
     (Inl (McpError InvalidRequest (''Invalid URI format: '' @ ''metabase://widget/5'')), st_apikey)"
    using T1 none by blast
  have B: "read_resource cfg_apikey ?srv ''metabase://dashboard/42'' st_apikey =
         (case ?srv (trace st_apikey) (sent GET ''/api/dashboard/42'' JUndefined st_apikey) of
            Inl e \<Rightarrow> Inl (McpError InternalError (''Metabase API error: '' @ axios_detail e))
          | Inr d \<Rightarrow>
              Inr (JObj [(''contents'',
                          JArr [JObj [(''uri'', JStr ''metabase://dashboard/42''),
                                      (''mimeType'', JStr ''application/json''),
                                      (''text'', JSON_stringify d)]])]),
          st_apikey\<lparr>trace := trace st_apikey @ [sent GET ''/api/dashboard/42'' JUndefined st_apikey]\<rparr>)"
    using T2 some by blast
  show ?thesis
    unfolding A B ans by simp
qed

text \<open>C4 as stated fails in username/password mode before the first login: for the
  unparseable URI \<open>metabase://widget/5\<close> the handler does raise invalid_request, but it has
  sent one HTTP request, the login; and when the login fails, the error is the
  authentication error, of kind internal_error.\<close>

theorem read_resource_zero_calls_counterexample:
  "match_id ''metabase://dashboard/'' ''metabase://widget/5'' = None \<and>
   match_id ''metabase://card/'' ''metabase://widget/5'' = None \<and>
   match_id ''metabase://database/'' ''metabase://widget/5'' = None \<and>
   fst (read_resource cfg_userpass (srv_table [((POST, ''/api/session''), JObj [(''id'', JStr ''tok'')])])
          ''metabase://widget/5'' st_userpass) =
     Inl (McpError InvalidRequest ''Invalid URI format: metabase://widget/5'') \<and>
   map url (issued st_userpass
     (snd (read_resource cfg_userpass (srv_table [((POST, ''/api/session''), JObj [(''id'', JStr ''tok'')])])
          ''metabase://widget/5'' st_userpass))) = [''/api/session''] \<and>
   fst (read_resource cfg_userpass srv_down ''metabase://widget/5'' st_userpass) =
     Inl (McpError InternalError ''Failed to authenticate with Metabase'')"
proof -
  let ?srv = "srv_table [((POST, ''/api/session''), JObj [(''id'', JStr ''tok'')])]"
  let ?st1 = "st_userpass\<lparr>trace := trace st_userpass @ [login_call cfg_userpass st_userpass],
                 sessionToken := JStr ''tok'',
                 headers := obj_set ''X-Metabase-Session'' (JStr ''tok'') (headers st_userpass)\<rparr>"
  have none: "match_id ''metabase://dashboard/'' ''metabase://widget/5'' = None"
      "match_id ''metabase://card/'' ''metabase://widget/5'' = None"
      "match_id ''metabase://database/'' ''metabase://widget/5'' = None"
    by (simp_all add: match_id_def)
  have ens: "ensure_session cfg_userpass ?srv st_userpass = (Inr (), ?st1)"
    by (rule ensure_session_login [where d = "JObj [(''id'', JStr ''tok'')]"])
       (simp_all add: cfg_userpass_def st_userpass_def srv_table_def login_call_def sent_def)
  have r: "read_resource cfg_userpass ?srv ''metabase://widget/5'' st_userpass =
      (Inl (McpError InvalidRequest ''Invalid URI format: metabase://widget/5''), ?st1)"
    using read_no_match [OF none, of ?srv ?st1] by (simp add: read_resource_after [OF ens])
  have down: "ensure_session cfg_userpass srv_down st_userpass =
      (Inl auth_failed, st_userpass\<lparr>trace := trace st_userpass @ [login_call cfg_userpass st_userpass]\<rparr>)"
    by (rule ensure_session_login_failed [where e = "AxiosError None ''connect ECONNREFUSED''"])
       (simp_all add: cfg_userpass_def st_userpass_def srv_down_def)
  have d: "fst (read_resource cfg_userpass srv_down ''metabase://widget/5'' st_userpass) =
     Inl (McpError InternalError ''Failed to authenticate with Metabase'')"
    by (simp add: read_resource_def bnd_def down auth_failed_def)
  show ?thesis
    using none r d by (simp add: issued_def login_call_def sent_def)
qed


section \<open>Running a tool after the credential check\<close>

lemma call_tool_after:
  "ensure_session cfg srv st = (Inr (), st1) \<Longrightarrow>
   call_tool cfg srv name args st = catch (tool_switch cfg srv name args) tool_rethrow st1"
  by (simp add: call_tool_def bnd_def)

lemma tool_request:
  "catch (bnd (request srv m u b) (\<lambda>d. ret (g d))) tool_rethrow st1 =
     (case srv (trace st1) (sent m u b st1) of
        Inl e \<Rightarrow> Inr (error_reply (''Metabase API error: '' @ axios_detail e))
      | Inr d \<Rightarrow> Inr (g d),
      st1\<lparr>trace := trace st1 @ [sent m u b st1]\<rparr>)"
  by (simp add: catch_def bnd_def request_eq ret_def split: sum.splits)

lemma tool_invalid_params:
  "catch (invalid_params msg) tool_rethrow st1 = (Inl (McpError InvalidParams msg), st1)"
  by (simp add: catch_def invalid_params_def throw_def)

lemma issued_after_session:
  assumes "ensure_session cfg srv st = (x, st1)" and "trace st' = trace st1 @ cs"
  shows "issued st st' =
           (if env_set (METABASE_API_KEY cfg) \<or> truthy (sessionToken st) then []
            else [login_call cfg st]) @ cs"
  using ensure_session_trace [of cfg srv st] assms by (simp add: issued_def)

lemma count_of_login [simp]:
  "count_of m [login_call cfg st] = (if m = POST then 1 else 0)"
  by (simp add: count_of_def login_call_def sent_def)

lemma count_of_sent [simp]:
  "count_of m [sent m' u b st] = (if m = m' then 1 else 0)"
  by (auto simp: count_of_def sent_def)

lemma count_of_append [simp]: "count_of m (xs @ ys) = count_of m xs + count_of m ys"
  by (simp add: count_of_def)

lemma count_of_Nil [simp]: "count_of m [] = 0"
  by (simp add: count_of_def)

lemma dec_int_examples:
  "dec_int 1 = ''1''" "dec_int 5 = ''5''" "dec_int 7 = ''7''" "dec_int 42 = ''42''"
  by (simp_all add: dec_int_def dec_nat.simps)

lemma strict_eq_str [simp]: "strict_eq v (JStr s) = (v = JStr s)"
  by (cases v) (auto simp: strict_eq_def)

lemma sent_trace [simp]: "sent m u b (st\<lparr>trace := t\<rparr>) = sent m u b st"
  by (simp add: sent_def)

lemma catch_bnd_request:
  "srv (trace st) (sent m u b st) = Inr d \<Longrightarrow>
   catch (bnd (request srv m u b) f) h st = catch (f d) h (st\<lparr>trace := trace st @ [sent m u b st]\<rparr>)"
  by (simp add: catch_def bnd_def request_eq)

lemma catch_bnd_lift: "catch (bnd (lift (Inr x)) f) h st = catch (f x) h st"
  by (simp add: catch_def bnd_def lift_def)

lemma get_prop_opt: "\<not> nullish d \<Longrightarrow> get_prop d k = Inr (opt_prop d k)"
  by (cases d) simp_all


section \<open>Deleting a card or a dashboard (C5)\<close>

lemma truthy_dflt_False [simp]: "truthy (dflt (JBool False) v) = truthy v"
  by (cases v) (simp_all add: dflt_def)

lemma delete_card_run:
  assumes "truthy (obj_get args ''card_id'')"
  shows "catch (tool_switch cfg srv ''delete_card'' args) tool_rethrow st1 =
    (if truthy (obj_get args ''hard_delete'') then
       (case srv (trace st1) (sent DELETE (''/api/card/'' @ to_string (obj_get args ''card_id'')) JUndefined st1) of
          Inl e \<Rightarrow> Inr (error_reply (''Metabase API error: '' @ axios_detail e))
        | Inr d \<Rightarrow> Inr (text_reply (JStr (''Card'' @ '' '' @ to_string (obj_get args ''card_id'') @ '' permanently deleted.''))),
        st1\<lparr>trace := trace st1 @ [sent DELETE (''/api/card/'' @ to_string (obj_get args ''card_id'')) JUndefined st1]\<rparr>)
     else
       (case srv (trace st1) (sent PUT (''/api/card/'' @ to_string (obj_get args ''card_id''))
                                (JObj [(''archived'', JBool True)]) st1) of
          Inl e \<Rightarrow> Inr (error_reply (''Metabase API error: '' @ axios_detail e))
        | Inr d \<Rightarrow> Inr (text_reply (archived_text ''Card'' (obj_get args ''card_id'') d)),
        st1\<lparr>trace := trace st1 @ [sent PUT (''/api/card/'' @ to_string (obj_get args ''card_id''))
                                      (JObj [(''archived'', JBool True)]) st1]\<rparr>))"
  using assms by (simp add: tool_switch_def case_delete_card_def Let_def tool_request split: sum.splits)

lemma delete_dashboard_run:
  assumes "truthy (obj_get args ''dashboard_id'')"
  shows "catch (tool_switch cfg srv ''delete_dashboard'' args) tool_rethrow st1 =
    (if truthy (obj_get args ''hard_delete'') then
       (case srv (trace st1) (sent DELETE (''/api/dashboard/'' @ to_string (obj_get args ''dashboard_id'')) JUndefined st1) of
          Inl e \<Rightarrow> Inr (error_reply (''Metabase API error: '' @ axios_detail e))
        | Inr d \<Rightarrow> Inr (text_reply (JStr (''Dashboard'' @ '' '' @ to_string (obj_get args ''dashboard_id'') @ '' permanently deleted.''))),
        st1\<lparr>trace := trace st1 @ [sent DELETE (''/api/dashboard/'' @ to_string (obj_get args ''dashboard_id'')) JUndefined st1]\<rparr>)
     else
       (case srv (trace st1) (sent PUT (''/api/dashboard/'' @ to_string (obj_get args ''dashboard_id''))
                                (JObj [(''archived'', JBool True)]) st1) of
          Inl e \<Rightarrow> Inr (error_reply (''Metabase API error: '' @ axios_detail e))
        | Inr d \<Rightarrow> Inr (text_reply (archived_text ''Dashboard'' (obj_get args ''dashboard_id'') d)),
        st1\<lparr>trace := trace st1 @ [sent PUT (''/api/dashboard/'' @ to_string (obj_get args ''dashboard_id''))
                                      (JObj [(''archived'', JBool True)]) st1]\<rparr>))"
  using assms by (simp add: tool_switch_def case_delete_dashboard_def Let_def tool_request split: sum.splits)

lemma delete_run:
  assumes tool: "(name, key, path, kind) = (''delete_card'', ''card_id'', ''/api/card/'', ''Card'') \<or>
                 (name, key, path, kind) = (''delete_dashboard'', ''dashboard_id'', ''/api/dashboard/'', ''Dashboard'')"
    and ident: "truthy (obj_get args key)"
  shows "catch (tool_switch cfg srv name args) tool_rethrow st1 =
    (if truthy (obj_get args ''hard_delete'') then
       (case srv (trace st1) (sent DELETE (path @ to_string (obj_get args key)) JUndefined st1) of
          Inl e \<Rightarrow> Inr (error_reply (''Metabase API error: '' @ axios_detail e))
        | Inr d \<Rightarrow> Inr (text_reply (JStr (kind @ '' '' @ to_string (obj_get args key) @ '' permanently deleted.''))),
        st1\<lparr>trace := trace st1 @ [sent DELETE (path @ to_string (obj_get args key)) JUndefined st1]\<rparr>)
     else
       (case srv (trace st1) (sent PUT (path @ to_string (obj_get args key))
                                (JObj [(''archived'', JBool True)]) st1) of
          Inl e \<Rightarrow> Inr (error_reply (''Metabase API error: '' @ axios_detail e))
        | Inr d \<Rightarrow> Inr (text_reply (archived_text kind (obj_get args key) d)),
        st1\<lparr>trace := trace st1 @ [sent PUT (path @ to_string (obj_get args key))
                                      (JObj [(''archived'', JBool True)]) st1]\<rparr>))"
  using tool
proof
  assume "(name, key, path, kind) = (''delete_card'', ''card_id'', ''/api/card/'', ''Card'')"
  then have n: "name = ''delete_card''" "key = ''card_id''" "path = ''/api/card/''" "kind = ''Card''"
    by simp_all
  show ?thesis unfolding n using ident [unfolded n] by (rule delete_card_run)
next
  assume "(name, key, path, kind) = (''delete_dashboard'', ''dashboard_id'', ''/api/dashboard/'', ''Dashboard'')"
  then have n: "name = ''delete_dashboard''" "key = ''dashboard_id''" "path = ''/api/dashboard/''"
      "kind = ''Dashboard''"
    by simp_all
  show ?thesis unfolding n using ident [unfolded n] by (rule delete_dashboard_run)
qed

text \<open>
  C5. For \<open>delete_card\<close> and \<open>delete_dashboard\<close> called with the entity id present (a
  value the handler's presence test accepts; C10 covers the id 0), once the credential is
  resolved: when \<open>hard_delete\<close> is true (any truthy value) the tool sends exactly one request,
  a DELETE of the entity, and the whole invocation holds one DELETE and no PUT; when
  \<open>hard_delete\<close> is false or absent (any falsy value) it sends exactly one request, a PUT of
  \<open>{archived: true}\<close> to the entity, and the whole invocation holds one PUT and no DELETE. When
  the request succeeds the reply is the textual confirmation, which for the archive includes
  the pretty-printed response body when there is one.
\<close>

theorem delete_hard_or_archive:
  assumes ens: "ensure_session cfg srv st = (Inr (), st1)"
    and tool: "(name, key, path, kind) = (''delete_card'', ''card_id'', ''/api/card/'', ''Card'') \<or>
               (name, key, path, kind) = (''delete_dashboard'', ''dashboard_id'', ''/api/dashboard/'', ''Dashboard'')"
    and ident: "truthy (obj_get args key)"
    and run: "call_tool cfg srv name args st = (r, st')"
  shows "(truthy (obj_get args ''hard_delete'') \<longrightarrow>
            issued st1 st' = [sent DELETE (path @ to_string (obj_get args key)) JUndefined st1] \<and>
            count_of DELETE (issued st st') = 1 \<and> count_of PUT (issued st st') = 0 \<and>
            (\<forall>d. srv (trace st1) (sent DELETE (path @ to_string (obj_get args key)) JUndefined st1) = Inr d \<longrightarrow>
                 r = Inr (text_reply (JStr (kind @ '' '' @ to_string (obj_get args key) @ '' permanently deleted.''))))) \<and>
         (\<not> truthy (obj_get args ''hard_delete'') \<longrightarrow>
            issued st1 st' = [sent PUT (path @ to_string (obj_get args key)) (JObj [(''archived'', JBool True)]) st1] \<and>
            count_of PUT (issued st st') = 1 \<and> count_of DELETE (issued st st') = 0 \<and>
            (\<forall>d. srv (trace st1) (sent PUT (path @ to_string (obj_get args key))
                                   (JObj [(''archived'', JBool True)]) st1) = Inr d \<longrightarrow>
                 r = Inr (text_reply
                        (if truthy d
                         then JStr (kind @ '' '' @ to_string (obj_get args key) @ '' archived. Details: ''
                                    @ to_string (JSON_stringify d))
                         else JStr (kind @ '' '' @ to_string (obj_get args key) @ '' archived.'')))))"
proof -
  note eq = run [unfolded call_tool_after [OF ens] delete_run [OF tool ident]]
  show ?thesis
  proof (intro conjI impI allI)
    assume h: "truthy (obj_get args ''hard_delete'')"
    from eq h have st': "st' = st1\<lparr>trace := trace st1 @ [sent DELETE (path @ to_string (obj_get args key)) JUndefined st1]\<rparr>"
      by simp
    show "issued st1 st' = [sent DELETE (path @ to_string (obj_get args key)) JUndefined st1]"
      by (simp add: st')
    have "issued st st' =
            (if env_set (METABASE_API_KEY cfg) \<or> truthy (sessionToken st) then [] else [login_call cfg st])
            @ [sent DELETE (path @ to_string (obj_get args key)) JUndefined st1]"
      by (rule issued_after_session [OF ens]) (simp add: st')
    then show "count_of DELETE (issued st st') = 1" "count_of PUT (issued st st') = 0"
      by simp_all
    fix d assume "srv (trace st1) (sent DELETE (path @ to_string (obj_get args key)) JUndefined st1) = Inr d"
    with eq h show "r = Inr (text_reply (JStr (kind @ '' '' @ to_string (obj_get args key) @ '' permanently deleted.'')))"
      by simp
  next
    assume h: "\<not> truthy (obj_get args ''hard_delete'')"
    from eq h have st': "st' = st1\<lparr>trace := trace st1 @ [sent PUT (path @ to_string (obj_get args key)) (JObj [(''archived'', JBool True)]) st1]\<rparr>"
      by simp
    show "issued st1 st' = [sent PUT (path @ to_string (obj_get args key)) (JObj [(''archived'', JBool True)]) st1]"
      by (simp add: st')
    have "issued st st' =
            (if env_set (METABASE_API_KEY cfg) \<or> truthy (sessionToken st) then [] else [login_call cfg st])
            @ [sent PUT (path @ to_string (obj_get args key)) (JObj [(''archived'', JBool True)]) st1]"
      by (rule issued_after_session [OF ens]) (simp add: st')
    then show "count_of PUT (issued st st') = 1" "count_of DELETE (issued st st') = 0"
      by simp_all
    fix d assume "srv (trace st1) (sent PUT (path @ to_string (obj_get args key)) (JObj [(''archived'', JBool True)]) st1) = Inr d"
    with eq h show "r = Inr (text_reply
                        (if truthy d
                         then JStr (kind @ '' '' @ to_string (obj_get args key) @ '' archived. Details: ''
                                    @ to_string (JSON_stringify d))
                         else JStr (kind @ '' '' @ to_string (obj_get args key) @ '' archived.'')))"
      by (simp add: archived_text_def)
  qed
qed

text \<open>With an API key: \<open>delete_card\<close> of card 5 with \<open>hard_delete: true\<close> sends the one
  DELETE; \<open>delete_dashboard\<close> of dashboard 7 without \<open>hard_delete\<close> sends the one PUT and
  reports the body. With a username and password, before the first login: the invocation
  logs in, and still holds one DELETE and no PUT.\<close>

theorem delete_hard_or_archive_witness:
  "issued st_apikey
     (snd (call_tool cfg_apikey (srv_table [((DELETE, ''/api/card/5''), JStr [])]) ''delete_card''
            [(''card_id'', JNum 5), (''hard_delete'', JBool True)] st_apikey)) =
     [sent DELETE ''/api/card/5'' JUndefined st_apikey] \<and>
   fst (call_tool cfg_apikey (srv_table [((DELETE, ''/api/card/5''), JStr [])]) ''delete_card''
            [(''card_id'', JNum 5), (''hard_delete'', JBool True)] st_apikey) =
     Inr (text_reply (JStr ''Card 5 permanently deleted.'')) \<and>
   issued st_apikey
     (snd (call_tool cfg_apikey (srv_table [((PUT, ''/api/dashboard/7''), JObj [(''id'', JNum 7)])])
            ''delete_dashboard'' [(''dashboard_id'', JNum 7)] st_apikey)) =
     [sent PUT ''/api/dashboard/7'' (JObj [(''archived'', JBool True)]) st_apikey] \<and>
   fst (call_tool cfg_apikey (srv_table [((PUT, ''/api/dashboard/7''), JObj [(''id'', JNum 7)])])
            ''delete_dashboard'' [(''dashboard_id'', JNum 7)] st_apikey) =
     Inr (text_reply (JStr (''Dashboard 7 archived. Details: ''
                            @ to_string (JSON_stringify (JObj [(''id'', JNum 7)]))))) \<and>
   count_of DELETE (issued st_userpass
     (snd (call_tool cfg_userpass
            (srv_table [((POST, ''/api/session''), JObj [(''id'', JStr ''tok'')]),
                        ((DELETE, ''/api/card/5''), JStr [])])
            ''delete_card'' [(''card_id'', JNum 5), (''hard_delete'', JBool True)] st_userpass))) = 1 \<and>
   count_of PUT (issued st_userpass
     (snd (call_tool cfg_userpass
            (srv_table [((POST, ''/api/session''), JObj [(''id'', JStr ''tok'')]),
                        ((DELETE, ''/api/card/5''), JStr [])])
            ''delete_card'' [(''card_id'', JNum 5), (''hard_delete'', JBool True)] st_userpass))) = 0"
proof -
  let ?srv3 = "srv_table [((POST, ''/api/session''), JObj [(''id'', JStr ''tok'')]),
                          ((DELETE, ''/api/card/5''), JStr [])]"
  have ens3: "ensure_session cfg_userpass ?srv3 st_userpass =
      (Inr (), st_userpass\<lparr>trace := trace st_userpass @ [login_call cfg_userpass st_userpass],
                 sessionToken := JStr ''tok'',
                 headers := obj_set ''X-Metabase-Session'' (JStr ''tok'') (headers st_userpass)\<rparr>)"
    by (rule ensure_session_login [where d = "JObj [(''id'', JStr ''tok'')]"])
       (simp_all add: cfg_userpass_def st_userpass_def srv_table_def login_call_def sent_def)
  let ?srv1 = "srv_table [((DELETE, ''/api/card/5''), JStr [])]"
  let ?a1 = "[(''card_id'', JNum 5), (''hard_delete'', JBool True)]"
  let ?srv2 = "srv_table [((PUT, ''/api/dashboard/7''), JObj [(''id'', JNum 7)])]"
  let ?a2 = "[(''dashboard_id'', JNum 7)]"
  have ens1: "ensure_session cfg_apikey ?srv1 st_apikey = (Inr (), st_apikey)"
    and ens2: "ensure_session cfg_apikey ?srv2 st_apikey = (Inr (), st_apikey)"
    by (simp_all add: ensure_session_apikey cfg_apikey_def)
  have id1: "truthy (obj_get ?a1 ''card_id'')" and id2: "truthy (obj_get ?a2 ''dashboard_id'')"
    by simp_all
  have u1: "''/api/card/'' @ to_string (obj_get ?a1 ''card_id'') = ''/api/card/5''"
    and u2: "''/api/dashboard/'' @ to_string (obj_get ?a2 ''dashboard_id'') = ''/api/dashboard/7''"
    by (simp_all add: dec_int_examples)
  have k1: "''Card'' @ '' '' @ to_string (obj_get ?a1 ''card_id'') @ '' permanently deleted.''
              = ''Card 5 permanently deleted.''"
    and k2: "''Dashboard'' @ '' '' @ to_string (obj_get ?a2 ''dashboard_id'') @ '' archived. Details: '' @ x
              = ''Dashboard 7 archived. Details: '' @ x" for x
    by (simp_all add: dec_int_examples)
  have h1: "truthy (obj_get ?a1 ''hard_delete'')" and h2: "\<not> truthy (obj_get ?a2 ''hard_delete'')"
    by simp_all
  have s1: "?srv1 (trace st_apikey) (sent DELETE ''/api/card/5'' JUndefined st_apikey) = Inr (JStr [])"
    and s2: "?srv2 (trace st_apikey) (sent PUT ''/api/dashboard/7'' (JObj [(''archived'', JBool True)]) st_apikey)
               = Inr (JObj [(''id'', JNum 7)])"
    by (simp_all add: srv_table_def sent_def)
  note T1 = delete_hard_or_archive [OF ens1 disjI1 [OF refl] id1 surjective_pairing, unfolded u1 k1]
  note T2 = delete_hard_or_archive [OF ens2 disjI2 [OF refl] id2 surjective_pairing, unfolded u2 k2]
  note T3 = delete_hard_or_archive [OF ens3 disjI1 [OF refl] id1 surjective_pairing]
  show ?thesis
    using T1 T2 T3 h1 h2 s1 s2 by simp
qed


section \<open>Updating a card or a dashboard (C7)\<close>

lemma update_card_run:
  "catch (tool_switch cfg srv ''update_card'' args) tool_rethrow st1 =
    (if \<not> truthy (obj_get args ''card_id'')
       then (Inl (McpError InvalidParams (''Card'' @ '' ID is required for '' @ ''update_card'')), st1)
     else if obj_del [''card_id''] args = []
       then (Inl (McpError InvalidParams (''No fields provided for '' @ ''update_card'')), st1)
     else
       (case srv (trace st1) (sent PUT (''/api/card/'' @ to_string (obj_get args ''card_id''))
                                (JObj (obj_del [''card_id''] args)) st1) of
          Inl e \<Rightarrow> Inr (error_reply (''Metabase API error: '' @ axios_detail e))
        | Inr d \<Rightarrow> Inr (text_reply (JSON_stringify d)),
        st1\<lparr>trace := trace st1 @ [sent PUT (''/api/card/'' @ to_string (obj_get args ''card_id''))
                                      (JObj (obj_del [''card_id''] args)) st1]\<rparr>))"
  by (simp add: tool_switch_def case_update_card_def Let_def tool_request tool_invalid_params
      split: sum.splits)

lemma update_dashboard_run:
  "catch (tool_switch cfg srv ''update_dashboard'' args) tool_rethrow st1 =
    (if \<not> truthy (obj_get args ''dashboard_id'')
       then (Inl (McpError InvalidParams (''Dashboard'' @ '' ID is required for '' @ ''update_dashboard'')), st1)
     else if obj_del [''dashboard_id''] args = []
       then (Inl (McpError InvalidParams (''No fields provided for '' @ ''update_dashboard'')), st1)
     else
       (case srv (trace st1) (sent PUT (''/api/dashboard/'' @ to_string (obj_get args ''dashboard_id''))
                                (JObj (obj_del [''dashboard_id''] args)) st1) of
          Inl e \<Rightarrow> Inr (error_reply (''Metabase API error: '' @ axios_detail e))
        | Inr d \<Rightarrow> Inr (text_reply (JSON_stringify d)),
        st1\<lparr>trace := trace st1 @ [sent PUT (''/api/dashboard/'' @ to_string (obj_get args ''dashboard_id''))
                                      (JObj (obj_del [''dashboard_id''] args)) st1]\<rparr>))"
  by (simp add: tool_switch_def case_update_dashboard_def Let_def tool_request tool_invalid_params
      split: sum.splits)

lemma update_run:
  assumes tool: "(name, key, path, kind) = (''update_card'', ''card_id'', ''/api/card/'', ''Card'') \<or>
                 (name, key, path, kind) = (''update_dashboard'', ''dashboard_id'', ''/api/dashboard/'', ''Dashboard'')"
  shows "catch (tool_switch cfg srv name args) tool_rethrow st1 =
    (if \<not> truthy (obj_get args key)
       then (Inl (McpError InvalidParams (kind @ '' ID is required for '' @ name)), st1)
     else if obj_del [key] args = []
       then (Inl (McpError InvalidParams (''No fields provided for '' @ name)), st1)
     else
       (case srv (trace st1) (sent PUT (path @ to_string (obj_get args key)) (JObj (obj_del [key] args)) st1) of
          Inl e \<Rightarrow> Inr (error_reply (''Metabase API error: '' @ axios_detail e))
        | Inr d \<Rightarrow> Inr (text_reply (JSON_stringify d)),
        st1\<lparr>trace := trace st1 @ [sent PUT (path @ to_string (obj_get args key))
                                      (JObj (obj_del [key] args)) st1]\<rparr>))"
  using tool
proof
  assume "(name, key, path, kind) = (''update_card'', ''card_id'', ''/api/card/'', ''Card'')"
  then have n: "name = ''update_card''" "key = ''card_id''" "path = ''/api/card/''" "kind = ''Card''"
    by simp_all
  show ?thesis unfolding n by (rule update_card_run)
next
  assume "(name, key, path, kind) = (''update_dashboard'', ''dashboard_id'', ''/api/dashboard/'', ''Dashboard'')"
  then have n: "name = ''update_dashboard''" "key = ''dashboard_id''" "path = ''/api/dashboard/''"
      "kind = ''Dashboard''"
    by simp_all
  show ?thesis unfolding n by (rule update_dashboard_run)
qed

text \<open>
  C7, as the code has it. \<open>update_card\<close> and \<open>update_dashboard\<close> run after the credential
  check, which sends nothing with an API key or a stored token and the login POST to
  /api/session otherwise. Once the credential is resolved: the entity id is required (a
  missing or falsy id fails with invalid_params); if nothing is left of the arguments once the
  id is removed, the handler fails with invalid_params and sends no further request;
  otherwise it sends exactly one PUT to the entity whose body is exactly the remaining
  arguments, and returns the response body pretty-printed (or, when the PUT fails, the reply
  flagged as an error).
\<close>

theorem update_after_session:
  assumes ens: "ensure_session cfg srv st = (Inr (), st1)"
    and tool: "(name, key, path, kind) = (''update_card'', ''card_id'', ''/api/card/'', ''Card'') \<or>
               (name, key, path, kind) = (''update_dashboard'', ''dashboard_id'', ''/api/dashboard/'', ''Dashboard'')"
  shows "issued st st1 = (if env_set (METABASE_API_KEY cfg) \<or> truthy (sessionToken st) then []
                          else [login_call cfg st]) \<and>
    (\<not> truthy (obj_get args key) \<longrightarrow>
       call_tool cfg srv name args st =
         (Inl (McpError InvalidParams (kind @ '' ID is required for '' @ name)), st1)) \<and>
    (truthy (obj_get args key) \<and> obj_del [key] args = [] \<longrightarrow>
       call_tool cfg srv name args st =
         (Inl (McpError InvalidParams (''No fields provided for '' @ name)), st1)) \<and>
    (truthy (obj_get args key) \<and> obj_del [key] args \<noteq> [] \<longrightarrow>
       call_tool cfg srv name args st =
         (case srv (trace st1) (sent PUT (path @ to_string (obj_get args key)) (JObj (obj_del [key] args)) st1) of
            Inl e \<Rightarrow> Inr (error_reply (''Metabase API error: '' @ axios_detail e))
          | Inr d \<Rightarrow> Inr (text_reply (JSON_stringify d)),
          st1\<lparr>trace := trace st1 @ [sent PUT (path @ to_string (obj_get args key))
                                        (JObj (obj_del [key] args)) st1]\<rparr>))"
  unfolding call_tool_after [OF ens] update_run [OF tool]
  using ensure_session_issued [OF ens] by simp

text \<open>With an API key: \<open>update_dashboard\<close> with the id alone is refused with nothing sent;
  with a name beside the id it sends the one PUT, whose body is the name alone.\<close>

theorem update_after_session_witness:
  "call_tool cfg_apikey (srv_table [((PUT, ''/api/dashboard/7''), JObj [(''id'', JNum 7)])])
     ''update_dashboard'' [(''dashboard_id'', JNum 7)] st_apikey =
     (Inl (McpError InvalidParams ''No fields provided for update_dashboard''), st_apikey) \<and>
   call_tool cfg_apikey (srv_table [((PUT, ''/api/dashboard/7''), JObj [(''id'', JNum 7)])])
     ''update_dashboard'' [(''dashboard_id'', JNum 7), (''name'', JStr ''Sales'')] st_apikey =
     (Inr (text_reply (JSON_stringify (JObj [(''id'', JNum 7)]))),
      st_apikey\<lparr>trace := trace st_apikey @
         [sent PUT ''/api/dashboard/7'' (JObj [(''name'', JStr ''Sales'')]) st_apikey]\<rparr>)"
proof -
  let ?srv = "srv_table [((PUT, ''/api/dashboard/7''), JObj [(''id'', JNum 7)])]"
  let ?a1 = "[(''dashboard_id'', JNum 7)]"
  let ?a2 = "[(''dashboard_id'', JNum 7), (''name'', JStr ''Sales'')]"
  have ens: "ensure_session cfg_apikey ?srv st_apikey = (Inr (), st_apikey)"
    by (simp add: ensure_session_apikey cfg_apikey_def)
  have a1: "truthy (obj_get ?a1 ''dashboard_id'') \<and> obj_del [''dashboard_id''] ?a1 = []"
    by (simp add: obj_del_def)
  have a2: "truthy (obj_get ?a2 ''dashboard_id'') \<and> obj_del [''dashboard_id''] ?a2 \<noteq> []"
    by (simp add: obj_del_def)
  have r2: "obj_del [''dashboard_id''] ?a2 = [(''name'', JStr ''Sales'')]"
    by (simp add: obj_del_def)
  have u2: "''/api/dashboard/'' @ to_string (obj_get ?a2 ''dashboard_id'') = ''/api/dashboard/7''"
    by (simp add: dec_int_examples)
  have s: "?srv (trace st_apikey) (sent PUT ''/api/dashboard/7'' (JObj [(''name'', JStr ''Sales'')]) st_apikey)
             = Inr (JObj [(''id'', JNum 7)])"
    by (simp add: srv_table_def sent_def)
  note T1 = update_after_session [OF ens disjI2 [OF refl], of ?a1]
  note T2 = update_after_session [OF ens disjI2 [OF refl], of ?a2, unfolded r2 u2]
  have A: "call_tool cfg_apikey ?srv ''update_dashboard'' ?a1 st_apikey =
     (Inl (McpError InvalidParams (''No fields provided for '' @ ''update_dashboard'')), st_apikey)"
    using T1 a1 by blast
  have B: "call_tool cfg_apikey ?srv ''update_dashboard'' ?a2 st_apikey =
         (case ?srv (trace st_apikey) (sent PUT ''/api/dashboard/7'' (JObj [(''name'', JStr ''Sales'')]) st_apikey) of
            Inl e \<Rightarrow> Inr (error_reply (''Metabase API error: '' @ axios_detail e))
          | Inr d \<Rightarrow> Inr (text_reply (JSON_stringify d)),
          st_apikey\<lparr>trace := trace st_apikey @ [sent PUT ''/api/dashboard/7''
                                        (JObj [(''name'', JStr ''Sales'')]) st_apikey]\<rparr>)"
    using T2 a2 [unfolded r2] by blast
  show ?thesis unfolding A B s by simp
qed

text \<open>C7 as stated fails in username/password mode before the first login:
  \<open>update_dashboard\<close> called with \<open>{dashboard_id: 7}\<close> alone fails with invalid_params, but
  one HTTP request has been sent, the login.\<close>

theorem update_zero_calls_counterexample:
  "obj_del [''dashboard_id''] [(''dashboard_id'', JNum 7)] = [] \<and>
   fst (call_tool cfg_userpass (srv_table [((POST, ''/api/session''), JObj [(''id'', JStr ''tok'')])])
          ''update_dashboard'' [(''dashboard_id'', JNum 7)] st_userpass) =
     Inl (McpError InvalidParams ''No fields provided for update_dashboard'') \<and>
   map url (issued st_userpass
     (snd (call_tool cfg_userpass (srv_table [((POST, ''/api/session''), JObj [(''id'', JStr ''tok'')])])
          ''update_dashboard'' [(''dashboard_id'', JNum 7)] st_userpass))) = [''/api/session'']"
proof -
  let ?srv = "srv_table [((POST, ''/api/session''), JObj [(''id'', JStr ''tok'')])]"
  let ?st1 = "st_userpass\<lparr>trace := trace st_userpass @ [login_call cfg_userpass st_userpass],
                 sessionToken := JStr ''tok'',
                 headers := obj_set ''X-Metabase-Session'' (JStr ''tok'') (headers st_userpass)\<rparr>"
  have ens: "ensure_session cfg_userpass ?srv st_userpass = (Inr (), ?st1)"
    by (rule ensure_session_login [where d = "JObj [(''id'', JStr ''tok'')]"])
       (simp_all add: cfg_userpass_def st_userpass_def srv_table_def login_call_def sent_def)
  have r: "call_tool cfg_userpass ?srv ''update_dashboard'' [(''dashboard_id'', JNum 7)] st_userpass =
      (Inl (McpError InvalidParams ''No fields provided for update_dashboard''), ?st1)"
    by (simp add: call_tool_after [OF ens] update_dashboard_run obj_del_def)
  show ?thesis
    by (simp add: r obj_del_def issued_def login_call_def sent_def)
qed


section \<open>Executing a native query (C2)\<close>

lemma execute_query_run:
  assumes "truthy (obj_get args ''database_id'')" "truthy (obj_get args ''query'')"
    and "srv (trace st1) (sent GET (''/api/database/'' @ to_string (obj_get args ''database_id'')) JUndefined st1) = Inr db"
    and "get_prop db ''engine'' = Inr eng"
    and "st2 = st1\<lparr>trace := trace st1 @ [sent GET (''/api/database/'' @ to_string (obj_get args ''database_id'')) JUndefined st1]\<rparr>"
  shows "catch (tool_switch cfg srv ''execute_query'' args) tool_rethrow st1 =
    (if eng = JStr ''mongo'' then
       (if \<not> truthy (obj_get args ''collection'')
        then (Inl (McpError InvalidParams ''Collection name is required for MongoDB queries''), st2)
        else catch (bnd (request srv POST ''/api/dataset''
                           (mongo_query (obj_get args ''database_id'') (obj_get args ''query'')
                              (obj_get args ''collection'')
                              (js_or (obj_get args ''native_parameters'') (JArr []))))
                      (\<lambda>d. ret (text_reply (JSON_stringify d)))) tool_rethrow st2)
     else catch (bnd (request srv POST ''/api/dataset''
                        (sql_query (obj_get args ''database_id'') (obj_get args ''query'')
                           (js_or (obj_get args ''native_parameters'') (JArr []))))
                   (\<lambda>d. ret (text_reply (JSON_stringify d)))) tool_rethrow st2)"
  using assms
  by (simp add: tool_switch_def case_execute_query_def Let_def catch_def bnd_def request_eq lift_def
      invalid_params_def throw_def)

text \<open>
  C2, as the code has it. \<open>execute_query\<close> runs after the credential check, which sends
  nothing with an API key or a stored token and the login POST to /api/session otherwise.
  Once the credential is resolved, called with a database id and a query (both truthy), the
  tool first GETs /api/database/{database_id} and reads the engine of the answer. If the
  engine is "mongo" and no collection is supplied (or an empty one), it fails with
  invalid_params having sent the GET alone: no POST to /api/dataset. If the engine is "mongo"
  and a collection is supplied, it POSTs to /api/dataset the body
  \<open>{type: "native", native: {collection, query, template_tags: {}}, parameters, database}\<close>,
  the query converted to a string. For any other engine it POSTs the same shape whose native
  object has the query and the template tags and no collection.
\<close>

theorem execute_query_after_session:
  assumes ens: "ensure_session cfg srv st = (Inr (), st1)"
    and ident: "truthy (obj_get args ''database_id'')" and query: "truthy (obj_get args ''query'')"
    and db: "srv (trace st1) (sent GET (''/api/database/'' @ to_string (obj_get args ''database_id'')) JUndefined st1) = Inr db"
    and eng: "get_prop db ''engine'' = Inr eng"
    and st2: "st2 = st1\<lparr>trace := trace st1 @ [sent GET (''/api/database/'' @ to_string (obj_get args ''database_id'')) JUndefined st1]\<rparr>"
    and mongo: "mbody = JObj [(''type'', JStr ''native''),
                              (''native'', JObj [(''collection'', obj_get args ''collection''),
                                                (''query'', JStr (to_string (obj_get args ''query''))),
                                                (''template_tags'', JObj [])]),
                              (''parameters'', js_or (obj_get args ''native_parameters'') (JArr [])),
                              (''database'', obj_get args ''database_id'')]"
    and sql: "sbody = JObj [(''type'', JStr ''native''),
                            (''native'', JObj [(''query'', obj_get args ''query''),
                                              (''template_tags'', JObj [])]),
                            (''parameters'', js_or (obj_get args ''native_parameters'') (JArr [])),
                            (''database'', obj_get args ''database_id'')]"
  shows "issued st st1 = (if env_set (METABASE_API_KEY cfg) \<or> truthy (sessionToken st) then []
                          else [login_call cfg st]) \<and>
    (eng = JStr ''mongo'' \<and> \<not> truthy (obj_get args ''collection'') \<longrightarrow>
       call_tool cfg srv ''execute_query'' args st =
         (Inl (McpError InvalidParams ''Collection name is required for MongoDB queries''), st2)) \<and>
    (eng = JStr ''mongo'' \<and> truthy (obj_get args ''collection'') \<longrightarrow>
       call_tool cfg srv ''execute_query'' args st =
         (case srv (trace st2) (sent POST ''/api/dataset'' mbody st2) of
            Inl e \<Rightarrow> Inr (error_reply (''Metabase API error: '' @ axios_detail e))
          | Inr d \<Rightarrow> Inr (text_reply (JSON_stringify d)),
          st2\<lparr>trace := trace st2 @ [sent POST ''/api/dataset'' mbody st2]\<rparr>)) \<and>
    (eng \<noteq> JStr ''mongo'' \<longrightarrow>
       call_tool cfg srv ''execute_query'' args st =
         (case srv (trace st2) (sent POST ''/api/dataset'' sbody st2) of
            Inl e \<Rightarrow> Inr (error_reply (''Metabase API error: '' @ axios_detail e))
          | Inr d \<Rightarrow> Inr (text_reply (JSON_stringify d)),
          st2\<lparr>trace := trace st2 @ [sent POST ''/api/dataset'' sbody st2]\<rparr>))"
  unfolding call_tool_after [OF ens] execute_query_run [where srv = srv and ?st1.0 = st1, OF ident query db eng st2] tool_request
    mongo sql mongo_query_def sql_query_def
  using ensure_session_issued [OF ens] by simp

text \<open>With an API key, against a database whose engine is mongo: without a collection the
  call is refused after the GET; with the collection \<open>events\<close> the GET is followed by the one
  POST, whose native object names the collection.\<close>

theorem execute_query_after_session_witness:
  "call_tool cfg_apikey
     (srv_table [((GET, ''/api/database/1''), JObj [(''engine'', JStr ''mongo'')]),
                 ((POST, ''/api/dataset''), JObj [(''rows'', JArr [])])])
     ''execute_query'' [(''database_id'', JNum 1), (''query'', JStr ''[]'')] st_apikey =
     (Inl (McpError InvalidParams ''Collection name is required for MongoDB queries''),
      st_apikey\<lparr>trace := trace st_apikey @ [sent GET ''/api/database/1'' JUndefined st_apikey]\<rparr>) \<and>
   call_tool cfg_apikey
     (srv_table [((GET, ''/api/database/1''), JObj [(''engine'', JStr ''mongo'')]),
                 ((POST, ''/api/dataset''), JObj [(''rows'', JArr [])])])
     ''execute_query''
     [(''database_id'', JNum 1), (''query'', JStr ''[]''), (''collection'', JStr ''events'')] st_apikey =
     (Inr (text_reply (JSON_stringify (JObj [(''rows'', JArr [])]))),
      st_apikey\<lparr>trace := trace st_apikey @
        [sent GET ''/api/database/1'' JUndefined st_apikey,
         sent POST ''/api/dataset''
           (JObj [(''type'', JStr ''native''),
                  (''native'', JObj [(''collection'', JStr ''events''), (''query'', JStr ''[]''),
                                    (''template_tags'', JObj [])]),
                  (''parameters'', JArr []),
                  (''database'', JNum 1)]) st_apikey]\<rparr>)"
proof -
  let ?srv = "srv_table [((GET, ''/api/database/1''), JObj [(''engine'', JStr ''mongo'')]),
                         ((POST, ''/api/dataset''), JObj [(''rows'', JArr [])])]"
  let ?a1 = "[(''database_id'', JNum 1), (''query'', JStr ''[]'')]"
  let ?a2 = "[(''database_id'', JNum 1), (''query'', JStr ''[]''), (''collection'', JStr ''events'')]"
  let ?st2 = "st_apikey\<lparr>trace := trace st_apikey @ [sent GET ''/api/database/1'' JUndefined st_apikey]\<rparr>"
  let ?mbody = "JObj [(''type'', JStr ''native''),
                  (''native'', JObj [(''collection'', JStr ''events''), (''query'', JStr ''[]''),
                                    (''template_tags'', JObj [])]),
                  (''parameters'', JArr []),
                  (''database'', JNum 1)]"
  have ens: "ensure_session cfg_apikey ?srv st_apikey = (Inr (), st_apikey)"
    by (simp add: ensure_session_apikey cfg_apikey_def)
  have db1: "?srv (trace st_apikey)
               (sent GET (''/api/database/'' @ to_string (obj_get ?a1 ''database_id'')) JUndefined st_apikey) =
              Inr (JObj [(''engine'', JStr ''mongo'')])"
    and db2: "?srv (trace st_apikey)
               (sent GET (''/api/database/'' @ to_string (obj_get ?a2 ''database_id'')) JUndefined st_apikey) =
              Inr (JObj [(''engine'', JStr ''mongo'')])"
    by (simp_all add: srv_table_def sent_def dec_int_examples)
  have eng: "get_prop (JObj [(''engine'', JStr ''mongo'')]) ''engine'' = Inr (JStr ''mongo'')"
    by simp
  have post: "?srv (trace ?st2) (sent POST ''/api/dataset'' ?mbody ?st2) = Inr (JObj [(''rows'', JArr [])])"
    by (simp add: srv_table_def sent_def)
  note T1 = execute_query_after_session [where srv = ?srv and args = ?a1,
      OF ens _ _ db1 eng refl refl refl]
  note T2 = execute_query_after_session [where srv = ?srv and args = ?a2,
      OF ens _ _ db2 eng refl refl refl]
  have A: "call_tool cfg_apikey ?srv ''execute_query'' ?a1 st_apikey =
     (Inl (McpError InvalidParams ''Collection name is required for MongoDB queries''), ?st2)"
    using T1 by (simp add: dec_int_examples)
  have B: "call_tool cfg_apikey ?srv ''execute_query'' ?a2 st_apikey =
     (case ?srv (trace ?st2) (sent POST ''/api/dataset'' ?mbody ?st2) of
            Inl e \<Rightarrow> Inr (error_reply (''Metabase API error: '' @ axios_detail e))
          | Inr d \<Rightarrow> Inr (text_reply (JSON_stringify d)),
          ?st2\<lparr>trace := trace ?st2 @ [sent POST ''/api/dataset'' ?mbody ?st2]\<rparr>)"
    using T2 by (simp add: dec_int_examples js_or_def)
  show ?thesis unfolding A B post by simp
qed

text \<open>C2 as stated fails in username/password mode before the first login: the call
  without a collection against a mongo database does fail with invalid_params, but a POST
  has been made, the login to /api/session, before the GET.\<close>

theorem execute_query_zero_posts_counterexample:
  "fst (call_tool cfg_userpass
          (srv_table [((POST, ''/api/session''), JObj [(''id'', JStr ''tok'')]),
                      ((GET, ''/api/database/1''), JObj [(''engine'', JStr ''mongo'')])])
          ''execute_query'' [(''database_id'', JNum 1), (''query'', JStr ''[]'')] st_userpass) =
     Inl (McpError InvalidParams ''Collection name is required for MongoDB queries'') \<and>
   map (\<lambda>c. (meth c, url c)) (issued st_userpass
     (snd (call_tool cfg_userpass
          (srv_table [((POST, ''/api/session''), JObj [(''id'', JStr ''tok'')]),
                      ((GET, ''/api/database/1''), JObj [(''engine'', JStr ''mongo'')])])
          ''execute_query'' [(''database_id'', JNum 1), (''query'', JStr ''[]'')] st_userpass))) =
     [(POST, ''/api/session''), (GET, ''/api/database/1'')]"
proof -
  let ?srv = "srv_table [((POST, ''/api/session''), JObj [(''id'', JStr ''tok'')]),
                         ((GET, ''/api/database/1''), JObj [(''engine'', JStr ''mongo'')])]"
  let ?a = "[(''database_id'', JNum 1), (''query'', JStr ''[]'')]"
  let ?st1 = "st_userpass\<lparr>trace := trace st_userpass @ [login_call cfg_userpass st_userpass],
                 sessionToken := JStr ''tok'',
                 headers := obj_set ''X-Metabase-Session'' (JStr ''tok'') (headers st_userpass)\<rparr>"
  let ?st2 = "?st1\<lparr>trace := trace ?st1 @ [sent GET (''/api/database/'' @ to_string (obj_get ?a ''database_id'')) JUndefined ?st1]\<rparr>"
  have ens: "ensure_session cfg_userpass ?srv st_userpass = (Inr (), ?st1)"
    by (rule ensure_session_login [where d = "JObj [(''id'', JStr ''tok'')]"])
       (simp_all add: cfg_userpass_def st_userpass_def srv_table_def login_call_def sent_def)
  have db: "?srv (trace ?st1) (sent GET (''/api/database/'' @ to_string (obj_get ?a ''database_id'')) JUndefined ?st1) =
              Inr (JObj [(''engine'', JStr ''mongo'')])"
    by (simp add: srv_table_def sent_def dec_int_examples)
  have r: "call_tool cfg_userpass ?srv ''execute_query'' ?a st_userpass =
      (Inl (McpError InvalidParams ''Collection name is required for MongoDB queries''), ?st2)"
    unfolding call_tool_after [OF ens]
    by (subst execute_query_run [where srv = ?srv and ?st1.0 = ?st1 and ?st2.0 = ?st2
          and eng = "JStr ''mongo''", OF _ _ db _ refl])
       simp_all
  show ?thesis
    unfolding r by (simp add: issued_def login_call_def sent_def dec_int_examples)
qed


section \<open>Adding a card to a dashboard (C6)\<close>

lemma map_exn_format_dashcard:
  "\<forall>dc \<in> set dcs. \<not> nullish dc \<Longrightarrow>
   map_exn format_dashcard dcs =
     Inr (map (\<lambda>dc. JObj [(''id'', opt_prop dc ''id''),
                            (''card_id'', opt_prop dc ''card_id''),
                            (''row'', opt_prop dc ''row''),
                            (''col'', opt_prop dc ''col''),
                            (''size_x'', opt_prop dc ''size_x''),
                            (''size_y'', opt_prop dc ''size_y''),
                            (''series'', js_or (opt_prop dc ''series'') (JArr [])),
                            (''visualization_settings'', js_or (opt_prop dc ''visualization_settings'') (JObj [])),
                            (''parameter_mappings'', js_or (opt_prop dc ''parameter_mappings'') (JArr []))]) dcs)"
  by (induction dcs) (simp_all add: format_dashcard_def)

lemma all_cards_formatted:
  assumes "get_prop d ''dashcards'' = Inr v" "js_or v (JArr []) = JArr dcs" "\<forall>dc \<in> set dcs. \<not> nullish dc"
  shows "all_cards d entry =
     Inr (JArr (map (\<lambda>dc. JObj [(''id'', opt_prop dc ''id''),
                            (''card_id'', opt_prop dc ''card_id''),
                            (''row'', opt_prop dc ''row''),
                            (''col'', opt_prop dc ''col''),
                            (''size_x'', opt_prop dc ''size_x''),
                            (''size_y'', opt_prop dc ''size_y''),
                            (''series'', js_or (opt_prop dc ''series'') (JArr [])),
                            (''visualization_settings'', js_or (opt_prop dc ''visualization_settings'') (JObj [])),
                            (''parameter_mappings'', js_or (opt_prop dc ''parameter_mappings'') (JArr []))]) dcs
                @ [entry]))"
  using assms by (simp add: all_cards_def map_exn_format_dashcard)

lemma add_card_run:
  assumes "truthy (obj_get args ''dashboard_id'')" "truthy (obj_get args ''card_id'')"
    and "srv (trace st1) (sent GET (''/api/dashboard/'' @ to_string (obj_get args ''dashboard_id'')) JUndefined st1) = Inr d"
    and "all_cards d (new_dashcard args) = Inr cards"
  shows "catch (tool_switch cfg srv ''add_card_to_dashboard'' args) tool_rethrow st1 =
    catch (bnd (request srv PUT (''/api/dashboard/'' @ to_string (obj_get args ''dashboard_id'') @ ''/cards'')
                  (JObj [(''cards'', cards)]))
             (\<lambda>r. ret (text_reply (JSON_stringify r)))) tool_rethrow
      (st1\<lparr>trace := trace st1 @ [sent GET (''/api/dashboard/'' @ to_string (obj_get args ''dashboard_id'')) JUndefined st1]\<rparr>)"
  using assms
  by (simp add: tool_switch_def case_add_card_to_dashboard_def Let_def catch_bnd_request catch_bnd_lift)

text \<open>
  C6. \<open>add_card_to_dashboard\<close>, called with a dashboard id and a card id once the
  credential is resolved, on a dashboard whose GET returns K existing dashcards (the
  \<open>dashcards\<close> array of the answer, none when the field is missing): the tool sends exactly
  one GET of the dashboard followed by exactly one PUT to /api/dashboard/{id}/cards, and the
  whole invocation holds one GET and one PUT. The \<open>cards\<close> array of the PUT body has K+1
  entries: the K existing dashcards, each re-shaped to the canonical record with series,
  visualization settings and parameter mappings defaulted to empty, then the new entry, with
  the supplied card id, the placeholder id -1, row and col defaulting to 0 and size_x and
  size_y to 4. The placeholder differs from every existing id, the existing ids being the
  positive numbers the service assigns.
\<close>

theorem add_card_rewrites_list:
  assumes ens: "ensure_session cfg srv st = (Inr (), st1)"
    and ident: "truthy (obj_get args ''dashboard_id'')" and card: "truthy (obj_get args ''card_id'')"
    and get: "srv (trace st1) (sent GET (''/api/dashboard/'' @ to_string (obj_get args ''dashboard_id'')) JUndefined st1) = Inr d"
    and existing: "get_prop d ''dashcards'' = Inr v" "js_or v (JArr []) = JArr dcs"
      "\<forall>dc \<in> set dcs. \<not> nullish dc"
    and cards: "cards =
       map (\<lambda>dc. JObj [(''id'', opt_prop dc ''id''),
                       (''card_id'', opt_prop dc ''card_id''),
                       (''row'', opt_prop dc ''row''),
                       (''col'', opt_prop dc ''col''),
                       (''size_x'', opt_prop dc ''size_x''),
                       (''size_y'', opt_prop dc ''size_y''),
                       (''series'', js_or (opt_prop dc ''series'') (JArr [])),
                       (''visualization_settings'', js_or (opt_prop dc ''visualization_settings'') (JObj [])),
                       (''parameter_mappings'', js_or (opt_prop dc ''parameter_mappings'') (JArr []))]) dcs
       @ [JObj [(''id'', JNum (- 1)),
                (''card_id'', obj_get args ''card_id''),
                (''row'', dflt (JNum 0) (obj_get args ''row'')),
                (''col'', dflt (JNum 0) (obj_get args ''col'')),
                (''size_x'', dflt (JNum 4) (obj_get args ''size_x'')),
                (''size_y'', dflt (JNum 4) (obj_get args ''size_y''))]]"
    and run: "call_tool cfg srv ''add_card_to_dashboard'' args st = (r, st')"
  shows "issued st1 st' =
           [sent GET (''/api/dashboard/'' @ to_string (obj_get args ''dashboard_id'')) JUndefined st1,
            sent PUT (''/api/dashboard/'' @ to_string (obj_get args ''dashboard_id'') @ ''/cards'')
              (JObj [(''cards'', JArr cards)]) st1] \<and>
         count_of GET (issued st st') = 1 \<and> count_of PUT (issued st st') = 1 \<and>
         length cards = length dcs + 1 \<and>
         opt_prop (last cards) ''card_id'' = obj_get args ''card_id'' \<and>
         opt_prop (last cards) ''id'' = JNum (- 1) \<and>
         ((\<forall>dc \<in> set dcs. \<exists>n. 0 < n \<and> opt_prop dc ''id'' = JNum n) \<longrightarrow>
            (\<forall>c \<in> set (butlast cards). opt_prop c ''id'' \<noteq> opt_prop (last cards) ''id''))"
proof -
  let ?g = "sent GET (''/api/dashboard/'' @ to_string (obj_get args ''dashboard_id'')) JUndefined st1"
  let ?p = "sent PUT (''/api/dashboard/'' @ to_string (obj_get args ''dashboard_id'') @ ''/cards'')
              (JObj [(''cards'', JArr cards)]) st1"
  have ac: "all_cards d (new_dashcard args) = Inr (JArr cards)"
    unfolding cards new_dashcard_def by (rule all_cards_formatted [OF existing])
  have "catch (tool_switch cfg srv ''add_card_to_dashboard'' args) tool_rethrow st1 = (r, st')"
    using run by (simp add: call_tool_after [OF ens])
  then have st': "st' = st1\<lparr>trace := trace st1 @ [?g, ?p]\<rparr>"
    unfolding add_card_run [where srv = srv and ?st1.0 = st1, OF ident card get ac] tool_request
    by auto
  have iss: "issued st st' =
            (if env_set (METABASE_API_KEY cfg) \<or> truthy (sessionToken st) then [] else [login_call cfg st])
            @ [?g, ?p]"
    by (rule issued_after_session [OF ens]) (simp add: st')
  have two: "count_of m [?g, ?p] = count_of m [?g] + count_of m [?p]" for m
    using count_of_append [of m "[?g]" "[?p]"] by simp
  show ?thesis
  proof (intro conjI)
    show "issued st1 st' = [?g, ?p]" by (simp add: st')
    show "count_of GET (issued st st') = 1" "count_of PUT (issued st st') = 1"
      unfolding iss count_of_append two by simp_all
    show "length cards = length dcs + 1" by (simp add: cards)
    show "opt_prop (last cards) ''card_id'' = obj_get args ''card_id''"
      "opt_prop (last cards) ''id'' = JNum (- 1)"
      by (simp_all add: cards)
    show "(\<forall>dc \<in> set dcs. \<exists>n. 0 < n \<and> opt_prop dc ''id'' = JNum n) \<longrightarrow>
            (\<forall>c \<in> set (butlast cards). opt_prop c ''id'' \<noteq> opt_prop (last cards) ''id'')"
      by (auto simp: cards)
  qed
qed

text \<open>With an API key, adding card 42 to dashboard 7, which holds one dashcard: the GET,
  then the PUT of two entries.\<close>

theorem add_card_rewrites_list_witness:
  "issued st_apikey
     (snd (call_tool cfg_apikey
             (srv_table [((GET, ''/api/dashboard/7''),
                          JObj [(''dashcards'', JArr [JObj [(''id'', JNum 1), (''card_id'', JNum 5)]])]),
                         ((PUT, ''/api/dashboard/7/cards''), JObj [(''status'', JStr ''ok'')])])
             ''add_card_to_dashboard'' [(''dashboard_id'', JNum 7), (''card_id'', JNum 42)] st_apikey)) =
     [sent GET ''/api/dashboard/7'' JUndefined st_apikey,
      sent PUT ''/api/dashboard/7/cards''
        (JObj [(''cards'',
                JArr [JObj [(''id'', JNum 1), (''card_id'', JNum 5), (''row'', JUndefined),
                            (''col'', JUndefined), (''size_x'', JUndefined), (''size_y'', JUndefined),
                            (''series'', JArr []), (''visualization_settings'', JObj []),
                            (''parameter_mappings'', JArr [])],
                      JObj [(''id'', JNum (- 1)), (''card_id'', JNum 42), (''row'', JNum 0),
                            (''col'', JNum 0), (''size_x'', JNum 4), (''size_y'', JNum 4)]])])
        st_apikey]"
proof -
  let ?d = "JObj [(''dashcards'', JArr [JObj [(''id'', JNum 1), (''card_id'', JNum 5)]])]"
  let ?srv = "srv_table [((GET, ''/api/dashboard/7''), ?d),
                         ((PUT, ''/api/dashboard/7/cards''), JObj [(''status'', JStr ''ok'')])]"
  let ?a = "[(''dashboard_id'', JNum 7), (''card_id'', JNum 42)]"
  have ens: "ensure_session cfg_apikey ?srv st_apikey = (Inr (), st_apikey)"
    by (simp add: ensure_session_apikey cfg_apikey_def)
  have ident: "truthy (obj_get ?a ''dashboard_id'')" and card: "truthy (obj_get ?a ''card_id'')"
    by simp_all
  have get: "?srv (trace st_apikey)
      (sent GET (''/api/dashboard/'' @ to_string (obj_get ?a ''dashboard_id'')) JUndefined st_apikey) = Inr ?d"
    by (simp add: srv_table_def sent_def dec_int_examples)
  have ex: "get_prop ?d ''dashcards'' = Inr (JArr [JObj [(''id'', JNum 1), (''card_id'', JNum 5)]])"
    "js_or (JArr [JObj [(''id'', JNum 1), (''card_id'', JNum 5)]]) (JArr []) =
       JArr [JObj [(''id'', JNum 1), (''card_id'', JNum 5)]]"
    "\<forall>dc \<in> set [JObj [(''id'', JNum 1), (''card_id'', JNum 5)]]. \<not> nullish dc"
    by (simp_all add: js_or_def)
  note T = add_card_rewrites_list [where srv = ?srv and args = ?a, OF ens ident card get ex refl
      surjective_pairing, THEN conjunct1]
  show ?thesis
    using T by (simp add: dec_int_examples dflt_def js_or_def)
qed


section \<open>Creating a card (C8)\<close>

lemma create_card_run:
  assumes "truthy (obj_get args ''name'')" "truthy (obj_get args ''dataset_query'')"
    "truthy (obj_get args ''display'')" "truthy (obj_get args ''visualization_settings'')"
    and "srv (trace st1) (sent POST ''/api/card'' (createCardBody args) st1) = Inr d"
    and "\<not> nullish d"
  shows "catch (tool_switch cfg srv ''create_card'' args) tool_rethrow st1 =
    (Inr (text_reply (JSON_stringify
       (with_link d (to_string (env_json (METABASE_URL cfg)) @ ''/question/'' @ to_string (opt_prop d ''id''))
          ''Card created successfully! View it at: ''))),
     st1\<lparr>trace := trace st1 @ [sent POST ''/api/card'' (createCardBody args) st1]\<rparr>)"
  using assms
  by (simp add: tool_switch_def case_create_card_def catch_bnd_request get_prop_opt catch_bnd_lift)
     (simp add: catch_def ret_def)

lemma createCardBody_fields:
  assumes "truthy (obj_get args ''name'')" "truthy (obj_get args ''dataset_query'')"
    "truthy (obj_get args ''display'')" "truthy (obj_get args ''visualization_settings'')"
    and "createCardBody args = JObj flds" and "(k, v) \<in> set flds"
  shows "v = obj_get args k \<and> v \<noteq> JUndefined"
  using assms by (auto simp: createCardBody_def optional_field_def split: if_splits)

text \<open>
  C8. A successful \<open>create_card\<close> invocation: the credential is resolved, the four required
  fields are supplied, the POST to /api/card succeeds and answers a record. The POST body
  holds the four required fields, then \<open>collection_id\<close> and \<open>description\<close> when they are
  supplied: every field of the body is an argument that was supplied, with the value
  supplied, and none is an undefined placeholder. The reply is the pretty-printed create
  response with two fields added: \<open>_link\<close>, equal to the base URL followed by /question/ and
  the id of the create response, and \<open>_message\<close>, the confirmation naming the link; every
  other field is as the service answered it.
\<close>

theorem create_card_link:
  assumes ens: "ensure_session cfg srv st = (Inr (), st1)"
    and req: "truthy (obj_get args ''name'')" "truthy (obj_get args ''dataset_query'')"
      "truthy (obj_get args ''display'')" "truthy (obj_get args ''visualization_settings'')"
    and base: "METABASE_URL cfg = Some base"
    and flds: "flds =
       [(''name'', obj_get args ''name''),
        (''dataset_query'', obj_get args ''dataset_query''),
        (''display'', obj_get args ''display''),
        (''visualization_settings'', obj_get args ''visualization_settings'')]
       @ (if obj_get args ''collection_id'' \<noteq> JUndefined
          then [(''collection_id'', obj_get args ''collection_id'')] else [])
       @ (if obj_get args ''description'' \<noteq> JUndefined
          then [(''description'', obj_get args ''description'')] else [])"
    and post: "srv (trace st1) (sent POST ''/api/card'' (JObj flds) st1) = Inr d"
    and created: "\<not> nullish d"
    and link: "link = base @ ''/question/'' @ to_string (opt_prop d ''id'')"
    and res: "res = obj_set ''_message'' (JStr (''Card created successfully! View it at: '' @ link))
                      (obj_set ''_link'' (JStr link) (spread d))"
  shows "call_tool cfg srv ''create_card'' args st =
           (Inr (text_reply (JSON_stringify (JObj res))),
            st1\<lparr>trace := trace st1 @ [sent POST ''/api/card'' (JObj flds) st1]\<rparr>) \<and>
         obj_get res ''_link'' = JStr link \<and>
         obj_get res ''_message'' = JStr (''Card created successfully! View it at: '' @ link) \<and>
         (\<forall>k. k \<noteq> ''_link'' \<and> k \<noteq> ''_message'' \<longrightarrow> obj_get res k = obj_get (spread d) k) \<and>
         (\<forall>kv \<in> set flds. snd kv = obj_get args (fst kv) \<and> snd kv \<noteq> JUndefined)"
proof -
  have body: "createCardBody args = JObj flds"
    by (simp add: createCardBody_def optional_field_def flds)
  have run: "call_tool cfg srv ''create_card'' args st =
           (Inr (text_reply (JSON_stringify (JObj res))),
            st1\<lparr>trace := trace st1 @ [sent POST ''/api/card'' (JObj flds) st1]\<rparr>)"
    unfolding call_tool_after [OF ens]
    using create_card_run [where srv = srv and ?st1.0 = st1 and cfg = cfg, OF req post [folded body] created]
    by (simp add: body base link res with_link_def)
  have only: "\<forall>kv \<in> set flds. snd kv = obj_get args (fst kv) \<and> snd kv \<noteq> JUndefined"
    using createCardBody_fields [OF req body] by auto
  have lookups: "obj_get res ''_link'' = JStr link"
    "obj_get res ''_message'' = JStr (''Card created successfully! View it at: '' @ link)"
    "\<forall>k. k \<noteq> ''_link'' \<and> k \<noteq> ''_message'' \<longrightarrow> obj_get res k = obj_get (spread d) k"
    by (simp_all add: res)
  show ?thesis
    using run lookups only by blast
qed

text \<open>With an API key and the base URL \<open>http://mb\<close>: the service answers id 42, the link is
  \<open>http://mb/question/42\<close>, and the body has the four required fields and no other.\<close>

theorem create_card_link_witness:
  "call_tool cfg_apikey
     (srv_table [((POST, ''/api/card''), JObj [(''id'', JNum 42), (''name'', JStr ''Sales'')])])
     ''create_card''
     [(''name'', JStr ''Sales''), (''dataset_query'', JObj []), (''display'', JStr ''table''),
      (''visualization_settings'', JObj [])] st_apikey =
     (Inr (text_reply (JSON_stringify
        (JObj [(''id'', JNum 42), (''name'', JStr ''Sales''),
               (''_link'', JStr ''http://mb/question/42''),
               (''_message'', JStr ''Card created successfully! View it at: http://mb/question/42'')]))),
      st_apikey\<lparr>trace := trace st_apikey @
        [sent POST ''/api/card''
           (JObj [(''name'', JStr ''Sales''), (''dataset_query'', JObj []), (''display'', JStr ''table''),
                  (''visualization_settings'', JObj [])]) st_apikey]\<rparr>)"
proof -
  let ?d = "JObj [(''id'', JNum 42), (''name'', JStr ''Sales'')]"
  let ?srv = "srv_table [((POST, ''/api/card''), ?d)]"
  let ?a = "[(''name'', JStr ''Sales''), (''dataset_query'', JObj []), (''display'', JStr ''table''),
      (''visualization_settings'', JObj [])]"
  let ?flds = "[(''name'', obj_get ?a ''name''),
        (''dataset_query'', obj_get ?a ''dataset_query''),
        (''display'', obj_get ?a ''display''),
        (''visualization_settings'', obj_get ?a ''visualization_settings'')]
       @ (if obj_get ?a ''collection_id'' \<noteq> JUndefined
          then [(''collection_id'', obj_get ?a ''collection_id'')] else [])
       @ (if obj_get ?a ''description'' \<noteq> JUndefined
          then [(''description'', obj_get ?a ''description'')] else [])"
  have ens: "ensure_session cfg_apikey ?srv st_apikey = (Inr (), st_apikey)"
    by (simp add: ensure_session_apikey cfg_apikey_def)
  have req: "truthy (obj_get ?a ''name'')" "truthy (obj_get ?a ''dataset_query'')"
      "truthy (obj_get ?a ''display'')" "truthy (obj_get ?a ''visualization_settings'')"
    by simp_all
  have base: "METABASE_URL cfg_apikey = Some ''http://mb''"
    by (simp add: cfg_apikey_def)
  have post: "?srv (trace st_apikey) (sent POST ''/api/card'' (JObj ?flds) st_apikey) = Inr ?d"
    by (simp add: srv_table_def sent_def)
  have created: "\<not> nullish ?d" by simp
  note T = create_card_link [where srv = ?srv and args = ?a, OF ens req base refl post created refl refl,
      THEN conjunct1]
  show ?thesis
    using T by (simp add: dec_int_examples)
qed


section \<open>Errors of a tool call (C9)\<close>

lemma first_failure_append:
  "first_failure srv h (cs1 @ cs2) =
     (case first_failure srv h cs1 of Some e \<Rightarrow> Some e | None \<Rightarrow> first_failure srv (h @ cs1) cs2)"
  by (induction cs1 arbitrary: h) (simp_all split: sum.splits option.splits)

lemma passes_ret: "passes_failures srv (ret x)"
  by (simp add: passes_failures_def ret_def)

lemma passes_throw: "passes_failures srv (throw e)"
  by (simp add: passes_failures_def throw_def)

lemma passes_invalid_params: "passes_failures srv (invalid_params msg)"
  by (simp add: invalid_params_def passes_throw)

lemma passes_lift: "passes_failures srv (lift r)"
  by (simp add: passes_failures_def lift_def)

lemma passes_request: "passes_failures srv (request srv m u b)"
  unfolding passes_failures_def
proof
  fix st
  show "\<exists>cs. trace (snd (request srv m u b st)) = trace st @ cs \<and>
          (\<forall>e. first_failure srv (trace st) cs = Some e \<longrightarrow> fst (request srv m u b st) = Inl (Axios e))"
    by (rule exI [of _ "[sent m u b st]"]) (simp add: request_eq split: sum.splits)
qed

lemma passes_bnd:
  assumes m: "passes_failures srv m" and f: "\<And>x. passes_failures srv (f x)"
  shows "passes_failures srv (bnd m f)"
  unfolding passes_failures_def
proof
  fix st
  obtain cs1 where t1: "trace (snd (m st)) = trace st @ cs1"
    and e1: "\<And>e. first_failure srv (trace st) cs1 = Some e \<Longrightarrow> fst (m st) = Inl (Axios e)"
    using m unfolding passes_failures_def by blast
  show "\<exists>cs. trace (snd (bnd m f st)) = trace st @ cs \<and>
          (\<forall>e. first_failure srv (trace st) cs = Some e \<longrightarrow> fst (bnd m f st) = Inl (Axios e))"
  proof (cases "m st")
    case (Pair r st1)
    show ?thesis
    proof (cases r)
      case (Inl err)
      then have "bnd m f st = (Inl err, st1)" using Pair by (simp add: bnd_def)
      then show ?thesis using t1 e1 Pair Inl by (intro exI [of _ cs1]) auto
    next
      case (Inr x)
      then have b: "bnd m f st = f x st1" using Pair by (simp add: bnd_def)
      obtain cs2 where t2: "trace (snd (f x st1)) = trace st1 @ cs2"
        and e2: "\<And>e. first_failure srv (trace st1) cs2 = Some e \<Longrightarrow> fst (f x st1) = Inl (Axios e)"
        using f [of x] unfolding passes_failures_def by blast
      have st1: "trace st1 = trace st @ cs1" using t1 Pair by simp
      have none: "first_failure srv (trace st) cs1 = None"
      proof (cases "first_failure srv (trace st) cs1")
        case (Some e)
        then show ?thesis using e1 [OF Some] Pair Inr by simp
      qed simp
      show ?thesis
        using t2 e2 by (intro exI [of _ "cs1 @ cs2"]) (simp add: b st1 first_failure_append none)
    qed
  qed
qed

lemma passes_if:
  "(c \<Longrightarrow> passes_failures srv a) \<Longrightarrow> (\<not> c \<Longrightarrow> passes_failures srv b) \<Longrightarrow>
   passes_failures srv (if c then a else b)"
  by simp

lemmas passes_intros =
  passes_bnd passes_request passes_ret passes_throw passes_invalid_params passes_lift passes_if

lemma tool_switch_passes: "passes_failures srv (tool_switch cfg srv name args)"
  unfolding tool_switch_def case_list_dashboards_def case_list_cards_def case_list_databases_def
    case_list_collections_def case_get_database_def case_get_database_metadata_def
    case_execute_card_def case_get_dashboard_cards_def case_execute_query_def case_create_card_def
    case_update_card_def case_delete_card_def case_create_dashboard_def case_update_dashboard_def
    case_delete_dashboard_def case_add_card_to_dashboard_def case_remove_card_from_dashboard_def
    case_update_dashboard_card_def case_create_dashboard_only_card_def Let_def
  by (intro passes_intros)

lemma catch_tool_rethrow:
  "catch m tool_rethrow st =
     (case fst (m st) of
        Inl (Axios e) \<Rightarrow> Inr (error_reply (''Metabase API error: '' @ axios_detail e))
      | Inl err \<Rightarrow> Inl err
      | Inr x \<Rightarrow> Inr x,
      snd (m st))"
  by (cases "m st") (auto simp: catch_def ret_def throw_def split: sum.splits exn.splits)

lemma unknown_tool:
  "name \<notin> set tool_names \<Longrightarrow>
   tool_switch cfg srv name args = ret (error_reply (''Unknown tool: '' @ name))"
  by (simp add: tool_names_def tool_switch_def)

lemma axios_detail_message:
  "response e = Some (JObj kvs) \<Longrightarrow> obj_get kvs ''message'' = JStr m \<Longrightarrow> m \<noteq> [] \<Longrightarrow>
   axios_detail e = m"
  by (simp add: axios_detail_def js_or_def)

lemma axios_detail_no_response:
  "response e = None \<Longrightarrow> axios_detail e = message e"
  by (simp add: axios_detail_def js_or_def)

text \<open>
  C9. For a tools/call request whose credential check has succeeded. When an HTTP request
  sent by the tool's body fails, the handler does not raise: it returns a reply of the
  normal shape, flagged \<open>isError: true\<close>, whose text is "Metabase API error: " followed by
  the message of the service's error response when it has one (else the message of the axios
  error); an axios error is never raised to the protocol layer. An invalid_params error
  raised by the body's validation is raised by the handler as it is. A name the switch has
  no case for yields a reply flagged \<open>isError: true\<close> that names the tool, with nothing
  sent, and is not raised.
\<close>

theorem tool_errors_in_band:
  assumes ens: "ensure_session cfg srv st = (Inr (), st1)"
    and run: "call_tool cfg srv name args st = (r, st')"
  shows "(\<forall>e. first_failure srv (trace st1) (issued st1 st') = Some e \<longrightarrow>
            r = Inr (JObj [(''content'',
                            JArr [JObj [(''type'', JStr ''text''),
                                        (''text'', JStr (''Metabase API error: '' @ axios_detail e))]]),
                           (''isError'', JBool True)])) \<and>
         (\<forall>e kvs m. response e = Some (JObj kvs) \<and> obj_get kvs ''message'' = JStr m \<and> m \<noteq> [] \<longrightarrow>
            axios_detail e = m) \<and>
         (\<forall>e. r \<noteq> Inl (Axios e)) \<and>
         (\<forall>msg. fst (tool_switch cfg srv name args st1) = Inl (McpError InvalidParams msg) \<longrightarrow>
            r = Inl (McpError InvalidParams msg)) \<and>
         (name \<notin> set tool_names \<longrightarrow>
            r = Inr (JObj [(''content'',
                            JArr [JObj [(''type'', JStr ''text''),
                                        (''text'', JStr (''Unknown tool: '' @ name))]]),
                           (''isError'', JBool True)]) \<and>
            st' = st1)"
proof -
  let ?m = "tool_switch cfg srv name args"
  have eq: "(r, st') =
     (case fst (?m st1) of
        Inl (Axios e) \<Rightarrow> Inr (error_reply (''Metabase API error: '' @ axios_detail e))
      | Inl err \<Rightarrow> Inl err
      | Inr x \<Rightarrow> Inr x,
      snd (?m st1))"
    using run unfolding call_tool_after [OF ens] catch_tool_rethrow by simp
  then have r: "r = (case fst (?m st1) of
        Inl (Axios e) \<Rightarrow> Inr (error_reply (''Metabase API error: '' @ axios_detail e))
      | Inl err \<Rightarrow> Inl err
      | Inr x \<Rightarrow> Inr x)"
    and st': "st' = snd (?m st1)"
    by simp_all
  obtain cs where tr: "trace (snd (?m st1)) = trace st1 @ cs"
    and fl: "\<And>e. first_failure srv (trace st1) cs = Some e \<Longrightarrow> fst (?m st1) = Inl (Axios e)"
    using tool_switch_passes [of srv cfg name args] unfolding passes_failures_def by blast
  have iss: "issued st1 st' = cs"
    by (simp add: issued_def st' tr)
  show ?thesis
  proof (intro conjI allI impI)
    fix e assume "first_failure srv (trace st1) (issued st1 st') = Some e"
    then have "fst (?m st1) = Inl (Axios e)" using fl iss by simp
    then show "r = Inr (JObj [(''content'',
                            JArr [JObj [(''type'', JStr ''text''),
                                        (''text'', JStr (''Metabase API error: '' @ axios_detail e))]]),
                           (''isError'', JBool True)])"
      by (simp add: r error_reply_def)
  next
    fix e kvs m
    assume "response e = Some (JObj kvs) \<and> obj_get kvs ''message'' = JStr m \<and> m \<noteq> []"
    then show "axios_detail e = m" by (simp add: axios_detail_message)
  next
    fix e show "r \<noteq> Inl (Axios e)"
      by (simp add: r split: sum.splits exn.splits)
  next
    fix msg assume "fst (?m st1) = Inl (McpError InvalidParams msg)"
    then show "r = Inl (McpError InvalidParams msg)" by (simp add: r)
  next
    assume u: "name \<notin> set tool_names"
    show "r = Inr (JObj [(''content'',
                            JArr [JObj [(''type'', JStr ''text''),
                                        (''text'', JStr (''Unknown tool: '' @ name))]]),
                           (''isError'', JBool True)])"
      by (simp add: r unknown_tool [OF u] ret_def error_reply_def)
    show "st' = st1"
      by (simp add: st' unknown_tool [OF u] ret_def)
  qed
qed

text \<open>With an API key against a service that answers 404 to everything: \<open>get_database\<close>
  of database 5 replies in band with the service's message; \<open>get_database\<close> without an id
  raises invalid_params; the unknown tool \<open>frobnicate\<close> gets the error-flagged reply.\<close>

theorem tool_errors_in_band_witness:
  "fst (call_tool cfg_apikey (srv_table []) ''get_database'' [(''database_id'', JNum 5)] st_apikey) =
     Inr (JObj [(''content'', JArr [JObj [(''type'', JStr ''text''),
                                          (''text'', JStr ''Metabase API error: Not found.'')]]),
                (''isError'', JBool True)]) \<and>
   fst (call_tool cfg_apikey (srv_table []) ''get_database'' [] st_apikey) =
     Inl (McpError InvalidParams ''Database ID is required'') \<and>
   call_tool cfg_apikey (srv_table []) ''frobnicate'' [] st_apikey =
     (Inr (JObj [(''content'', JArr [JObj [(''type'', JStr ''text''),
                                           (''text'', JStr ''Unknown tool: frobnicate'')]]),
                 (''isError'', JBool True)]), st_apikey)"
proof -
  let ?srv = "srv_table []"
  have ens: "ensure_session cfg_apikey ?srv st_apikey = (Inr (), st_apikey)"
    by (simp add: ensure_session_apikey cfg_apikey_def)
  note T1 = tool_errors_in_band [OF ens surjective_pairing, of "''get_database''" "[(''database_id'', JNum 5)]"]
  note T2 = tool_errors_in_band [OF ens surjective_pairing, of "''get_database''" "[]"]
  note T3 = tool_errors_in_band [OF ens surjective_pairing, of "''frobnicate''" "[]"]
  have run1: "call_tool cfg_apikey ?srv ''get_database'' [(''database_id'', JNum 5)] st_apikey =
      (Inr (error_reply (''Metabase API error: '' @ axios_detail not_found)),
       st_apikey\<lparr>trace := trace st_apikey @ [sent GET ''/api/database/5'' JUndefined st_apikey]\<rparr>)"
    unfolding call_tool_after [OF ens]
    by (simp add: tool_switch_def case_get_database_def tool_request srv_table_def dec_int_examples)
  have f1: "first_failure ?srv (trace st_apikey)
              (issued st_apikey (snd (call_tool cfg_apikey ?srv ''get_database''
                 [(''database_id'', JNum 5)] st_apikey))) = Some not_found"
    by (simp add: run1 srv_table_def)
  have d: "axios_detail not_found = ''Not found.''"
    by (rule T1 [THEN conjunct2, THEN conjunct1, rule_format,
          of not_found "[(''message'', JStr ''Not found.'')]"]) (simp add: not_found_def)
  have A: "fst (call_tool cfg_apikey ?srv ''get_database'' [(''database_id'', JNum 5)] st_apikey) =
     Inr (JObj [(''content'', JArr [JObj [(''type'', JStr ''text''),
                                          (''text'', JStr ''Metabase API error: Not found.'')]]),
                (''isError'', JBool True)])"
    using T1 [THEN conjunct1, rule_format, OF f1] by (simp add: d)
  have v: "fst (tool_switch cfg_apikey ?srv ''get_database'' [] st_apikey) =
             Inl (McpError InvalidParams ''Database ID is required'')"
    by (simp add: tool_switch_def case_get_database_def invalid_params_def throw_def)
  have B: "fst (call_tool cfg_apikey ?srv ''get_database'' [] st_apikey) =
     Inl (McpError InvalidParams ''Database ID is required'')"
    using T2 v by blast
  have u: "''frobnicate'' \<notin> set tool_names"
    by (simp add: tool_names_def)
  have C: "call_tool cfg_apikey ?srv ''frobnicate'' [] st_apikey =
     (Inr (JObj [(''content'', JArr [JObj [(''type'', JStr ''text''),
                                           (''text'', JStr (''Unknown tool: '' @ ''frobnicate''))]]),
                 (''isError'', JBool True)]), st_apikey)"
    using T3 u by (metis surjective_pairing)
  show ?thesis
    using A B C by simp
qed


section \<open>An id of 0 (C10)\<close>

lemma switch_id_tools:
  "tool_switch cfg srv ''get_database'' a = case_get_database srv a"
  "tool_switch cfg srv ''get_database_metadata'' a = case_get_database_metadata srv a"
  "tool_switch cfg srv ''execute_card'' a = case_execute_card srv a"
  "tool_switch cfg srv ''get_dashboard_cards'' a = case_get_dashboard_cards srv a"
  "tool_switch cfg srv ''execute_query'' a = case_execute_query srv a"
  "tool_switch cfg srv ''update_card'' a = case_update_card srv a"
  "tool_switch cfg srv ''delete_card'' a = case_delete_card srv a"
  "tool_switch cfg srv ''update_dashboard'' a = case_update_dashboard srv a"
  "tool_switch cfg srv ''delete_dashboard'' a = case_delete_dashboard srv a"
  "tool_switch cfg srv ''add_card_to_dashboard'' a = case_add_card_to_dashboard srv a"
  "tool_switch cfg srv ''remove_card_from_dashboard'' a = case_remove_card_from_dashboard srv a"
  "tool_switch cfg srv ''update_dashboard_card'' a = case_update_dashboard_card srv a"
  "tool_switch cfg srv ''create_dashboard_only_card'' a = case_create_dashboard_only_card srv a"
  by (simp_all add: tool_switch_def)

lemma first_id_missing:
  "\<not> truthy (obj_get a ''database_id'') \<Longrightarrow> case_get_database srv a = invalid_params ''Database ID is required''"
  "\<not> truthy (obj_get a ''database_id'') \<Longrightarrow> case_get_database_metadata srv a = invalid_params ''Database ID is required''"
  "\<not> truthy (obj_get a ''card_id'') \<Longrightarrow> case_execute_card srv a = invalid_params ''Card ID is required''"
  "\<not> truthy (obj_get a ''dashboard_id'') \<Longrightarrow> case_get_dashboard_cards srv a = invalid_params ''Dashboard ID is required''"
  "\<not> truthy (obj_get a ''database_id'') \<Longrightarrow> case_execute_query srv a = invalid_params ''Database ID is required''"
  "\<not> truthy (obj_get a ''card_id'') \<Longrightarrow> case_update_card srv a = invalid_params ''Card ID is required for update_card''"
  "\<not> truthy (obj_get a ''card_id'') \<Longrightarrow> case_delete_card srv a = invalid_params ''Card ID is required for delete_card''"
  "\<not> truthy (obj_get a ''dashboard_id'') \<Longrightarrow> case_update_dashboard srv a = invalid_params ''Dashboard ID is required for update_dashboard''"
  "\<not> truthy (obj_get a ''dashboard_id'') \<Longrightarrow> case_delete_dashboard srv a = invalid_params ''Dashboard ID is required for delete_dashboard''"
  "\<not> truthy (obj_get a ''dashboard_id'') \<Longrightarrow> case_add_card_to_dashboard srv a = invalid_params ''Dashboard ID is required for add_card_to_dashboard''"
  "\<not> truthy (obj_get a ''dashboard_id'') \<Longrightarrow> case_remove_card_from_dashboard srv a = invalid_params ''Dashboard ID is required for remove_card_from_dashboard''"
  "\<not> truthy (obj_get a ''dashboard_id'') \<Longrightarrow> case_update_dashboard_card srv a = invalid_params ''Dashboard ID is required for update_dashboard_card''"
  "\<not> truthy (obj_get a ''dashboard_id'') \<Longrightarrow> case_create_dashboard_only_card srv a = invalid_params ''Dashboard ID is required for create_dashboard_only_card''"
  by (simp_all add: case_get_database_def case_get_database_metadata_def case_execute_card_def
      case_get_dashboard_cards_def case_execute_query_def case_update_card_def case_delete_card_def
      case_update_dashboard_def case_delete_dashboard_def case_add_card_to_dashboard_def
      case_remove_card_from_dashboard_def case_update_dashboard_card_def
      case_create_dashboard_only_card_def Let_def)

lemma second_id_missing:
  "truthy (obj_get a ''dashboard_id'') \<Longrightarrow> \<not> truthy (obj_get a ''card_id'') \<Longrightarrow>
     case_add_card_to_dashboard srv a = invalid_params ''Card ID is required for add_card_to_dashboard''"
  "truthy (obj_get a ''dashboard_id'') \<Longrightarrow> \<not> truthy (obj_get a ''dashcard_id'') \<Longrightarrow>
     case_remove_card_from_dashboard srv a = invalid_params ''Dashcard ID is required for remove_card_from_dashboard''"
  "truthy (obj_get a ''dashboard_id'') \<Longrightarrow> \<not> truthy (obj_get a ''dashcard_id'') \<Longrightarrow>
     case_update_dashboard_card srv a = invalid_params ''Dashcard ID is required for update_dashboard_card''"
  by (simp_all add: case_add_card_to_dashboard_def case_remove_card_from_dashboard_def
      case_update_dashboard_card_def Let_def)

lemma rejected_each:
  "\<not> truthy (obj_get a ''database_id'') \<Longrightarrow>
     tool_switch cfg srv ''get_database'' a = invalid_params (id_required ''get_database'' ''database_id'' a)"
  "\<not> truthy (obj_get a ''database_id'') \<Longrightarrow>
     tool_switch cfg srv ''get_database_metadata'' a = invalid_params (id_required ''get_database_metadata'' ''database_id'' a)"
  "\<not> truthy (obj_get a ''card_id'') \<Longrightarrow>
     tool_switch cfg srv ''execute_card'' a = invalid_params (id_required ''execute_card'' ''card_id'' a)"
  "\<not> truthy (obj_get a ''dashboard_id'') \<Longrightarrow>
     tool_switch cfg srv ''get_dashboard_cards'' a = invalid_params (id_required ''get_dashboard_cards'' ''dashboard_id'' a)"
  "\<not> truthy (obj_get a ''database_id'') \<Longrightarrow>
     tool_switch cfg srv ''execute_query'' a = invalid_params (id_required ''execute_query'' ''database_id'' a)"
  "\<not> truthy (obj_get a ''card_id'') \<Longrightarrow>
     tool_switch cfg srv ''update_card'' a = invalid_params (id_required ''update_card'' ''card_id'' a)"
  "\<not> truthy (obj_get a ''card_id'') \<Longrightarrow>
     tool_switch cfg srv ''delete_card'' a = invalid_params (id_required ''delete_card'' ''card_id'' a)"
  "\<not> truthy (obj_get a ''dashboard_id'') \<Longrightarrow>
     tool_switch cfg srv ''update_dashboard'' a = invalid_params (id_required ''update_dashboard'' ''dashboard_id'' a)"
  "\<not> truthy (obj_get a ''dashboard_id'') \<Longrightarrow>
     tool_switch cfg srv ''delete_dashboard'' a = invalid_params (id_required ''delete_dashboard'' ''dashboard_id'' a)"
  "\<not> truthy (obj_get a ''dashboard_id'') \<Longrightarrow>
     tool_switch cfg srv ''add_card_to_dashboard'' a = invalid_params (id_required ''add_card_to_dashboard'' ''dashboard_id'' a)"
  "\<not> truthy (obj_get a ''card_id'') \<Longrightarrow>
     tool_switch cfg srv ''add_card_to_dashboard'' a = invalid_params (id_required ''add_card_to_dashboard'' ''card_id'' a)"
  "\<not> truthy (obj_get a ''dashboard_id'') \<Longrightarrow>
     tool_switch cfg srv ''remove_card_from_dashboard'' a = invalid_params (id_required ''remove_card_from_dashboard'' ''dashboard_id'' a)"
  "\<not> truthy (obj_get a ''dashcard_id'') \<Longrightarrow>
     tool_switch cfg srv ''remove_card_from_dashboard'' a = invalid_params (id_required ''remove_card_from_dashboard'' ''dashcard_id'' a)"
  "\<not> truthy (obj_get a ''dashboard_id'') \<Longrightarrow>
     tool_switch cfg srv ''update_dashboard_card'' a = invalid_params (id_required ''update_dashboard_card'' ''dashboard_id'' a)"
  "\<not> truthy (obj_get a ''dashcard_id'') \<Longrightarrow>
     tool_switch cfg srv ''update_dashboard_card'' a = invalid_params (id_required ''update_dashboard_card'' ''dashcard_id'' a)"
  "\<not> truthy (obj_get a ''dashboard_id'') \<Longrightarrow>
     tool_switch cfg srv ''create_dashboard_only_card'' a = invalid_params (id_required ''create_dashboard_only_card'' ''dashboard_id'' a)"
  by (simp_all add: switch_id_tools first_id_missing second_id_missing id_required_def)



lemma rejected_without_id:
  assumes "(t, k) \<in> set required_ids" and "\<not> truthy (obj_get a k)"
  shows "tool_switch cfg srv t a = invalid_params (id_required t k a)"
  using assms unfolding required_ids_def by (auto simp: rejected_each)

text \<open>
  C10. Every tool that declares a required numeric id argument tests it by truthiness. For
  each such tool and id argument, once the credential is resolved: a call in which the
  argument is present but 0 (or any other falsy value) is rejected with the same
  invalid_params error as the call in which the argument is missing, and the state is the one
  the credential check left: the tool has sent no request of its own.
\<close>

theorem zero_id_rejected:
  assumes ens: "ensure_session cfg srv st = (Inr (), st1)"
    and tool: "(t, k) \<in> set required_ids"
    and falsy: "\<not> truthy v"
  shows "call_tool cfg srv t (obj_set k v args) st =
           (Inl (McpError InvalidParams (id_required t k args)), st1) \<and>
         call_tool cfg srv t (obj_del [k] args) st =
           (Inl (McpError InvalidParams (id_required t k args)), st1)"
proof -
  have zero: "\<not> truthy (obj_get (obj_set k v args) k)"
    and missing: "\<not> truthy (obj_get (obj_del [k] args) k)"
    using falsy by simp_all
  have same: "id_required t k (obj_set k v args) = id_required t k args"
    "id_required t k (obj_del [k] args) = id_required t k args"
    by (auto simp: id_required_def)
  show ?thesis
    unfolding call_tool_after [OF ens] rejected_without_id [OF tool zero]
      rejected_without_id [OF tool missing] tool_invalid_params same
    by simp
qed

text \<open>\<open>delete_card\<close> with \<open>card_id: 0\<close> and without a card id, and
  \<open>add_card_to_dashboard\<close> with \<open>card_id: 0\<close>: the same refusals, nothing sent.\<close>

theorem zero_id_rejected_witness:
  "call_tool cfg_apikey (srv_table []) ''delete_card''
     [(''hard_delete'', JBool True), (''card_id'', JNum 0)] st_apikey =
     (Inl (McpError InvalidParams ''Card ID is required for delete_card''), st_apikey) \<and>
   call_tool cfg_apikey (srv_table []) ''delete_card'' [(''hard_delete'', JBool True)] st_apikey =
     (Inl (McpError InvalidParams ''Card ID is required for delete_card''), st_apikey) \<and>
   call_tool cfg_apikey (srv_table []) ''add_card_to_dashboard''
     [(''dashboard_id'', JNum 7), (''card_id'', JNum 0)] st_apikey =
     (Inl (McpError InvalidParams ''Card ID is required for add_card_to_dashboard''), st_apikey)"
proof -
  have ens: "ensure_session cfg_apikey (srv_table []) st_apikey = (Inr (), st_apikey)"
    by (simp add: ensure_session_apikey cfg_apikey_def)
  have t1: "(''delete_card'', ''card_id'') \<in> set required_ids"
    and t2: "(''add_card_to_dashboard'', ''card_id'') \<in> set required_ids"
    by (simp_all add: required_ids_def)
  have z: "\<not> truthy (JNum 0)" by simp
  note T1 = zero_id_rejected [OF ens t1 z, of "[(''hard_delete'', JBool True)]"]
  note T2 = zero_id_rejected [OF ens t2 z, of "[(''dashboard_id'', JNum 7), (''card_id'', JNum 5)]"]
  show ?thesis
    using T1 T2 by (simp add: id_required_def obj_del_def)
qed

end
